theory Spec2Isabelle
  imports Complex_Main "HOL-Library.Multiset"
begin

section \<open>SQUID decision pipeline: conventions of the embedding\<close>

text \<open>
  The Python sources \<^verbatim>\<open>squid_formulas.py\<close>, \<^verbatim>\<open>decision_engine.py\<close>,
  \<^verbatim>\<open>squid_model.py\<close> and \<^verbatim>\<open>ipc_daemon.py\<close> are embedded function by function.

  \<^item> A Python \<^verbatim>\<open>float\<close> is the \<^typ>\<open>real\<close> it stands for. Three readings of float
    arithmetic are used, each where it is sound for what is stated.
    In the daemon (\<^verbatim>\<open>handle_decide\<close> and the functions \<open>calculate_decoy_rate\<close>,
    \<open>generate_actions\<close>, \<open>plan_rotations\<close> it calls) arithmetic is exact: the statements
    made of it compare two runs of the same computation, or follow the sign of the budget
    deduction, and do not depend on the value of a rounded result.
    In the metric calculators arithmetic is exact as well, but the range of a float is
    modelled: an operation whose result leaves the range raises \<^verbatim>\<open>OverflowError\<close> or
    yields an infinity, as Python has it.
    In \<open>calculate_decoy_rate_fl\<close>, \<open>generate_actions_fl\<close>, \<open>plan_rotations_fl\<close> and
    \<open>apply_policy_constraints\<close>, whose results are counts and positions obtained by
    truncating or comparing floats, every float operation is rounded: see the section on
    rounding below.
  \<^item> A Python \<^verbatim>\<open>int\<close> is an \<^typ>\<open>int\<close>; \<^verbatim>\<open>len\<close> of a list is \<open>int (length xs)\<close>.
  \<^item> An action is the Python string itself (\<open>''DECOY''\<close> and so on).
  \<^item> The two library shuffles (\<^verbatim>\<open>np.random.seed(s); np.random.shuffle(xs)\<close> and
    \<^verbatim>\<open>random.Random(s).shuffle(xs)\<close>) are not code of the repository. Each is a
    parameter of type \<open>int \<Rightarrow> nat list \<Rightarrow> nat list\<close>: the list obtained from \<open>xs\<close> under
    seed \<open>s\<close>. Where a property needs the shuffle to be a permutation, that is a
    hypothesis of the theorem.
  \<^item> A Python exception that leaves a function is a value \<open>Inl e\<close> of its result type;
    one caught inside the function is the branch its handler takes.
\<close>

datatype py_error = KeyError | IndexError | OverflowError | ValueError | ZeroDivisionError

type_synonym action = string

type_synonym shuffle = "int \<Rightarrow> nat list \<Rightarrow> nat list"

text \<open>\<^verbatim>\<open>int(x)\<close> on a float truncates towards zero.\<close>

definition py_int :: "real \<Rightarrow> int" where
  "py_int x = (if 0 \<le> x then \<lfloor>x\<rfloor> else \<lceil>x\<rceil>)"

text \<open>\<^verbatim>\<open>[a] * k\<close> is the empty list when \<open>k \<le> 0\<close>.\<close>

definition py_repeat :: "'a \<Rightarrow> int \<Rightarrow> 'a list" where
  "py_repeat a k = replicate (nat k) a"

text \<open>\<^verbatim>\<open>list(range(n))\<close> and \<^verbatim>\<open>np.arange(n)\<close> are empty when \<open>n \<le> 0\<close>.\<close>

definition py_range :: "int \<Rightarrow> nat list" where
  "py_range n = [0..<nat n]"

text \<open>
  The range of a binary64 float. A value whose magnitude reaches \<open>2^1024 - 2^970\<close> rounds to
  infinity: \<^verbatim>\<open>float(k)\<close>, the true division of two \<^verbatim>\<open>int\<close>s, \<^verbatim>\<open>math.exp\<close> and \<^verbatim>\<open>**\<close> then
  raise \<^verbatim>\<open>OverflowError\<close>, while a float product, quotient or sum becomes \<open>\<plusminus>inf\<close>, which
  \<^verbatim>\<open>math.isfinite\<close> and \<^verbatim>\<open>math.isinf\<close> detect. In the calculators below such a value is kept
  as the real it stands for and recognised by its magnitude.
\<close>

definition float_overflow :: real where
  "float_overflow = 2 ^ 1024 - 2 ^ 970"

definition py_isfinite :: "real \<Rightarrow> bool" where
  "py_isfinite x = (\<bar>x\<bar> < float_overflow)"

text \<open>\<^verbatim>\<open>float(k)\<close>, also where an \<^verbatim>\<open>int\<close> meets a float in an arithmetic operation.\<close>

definition py_float :: "int \<Rightarrow> py_error + real" where
  "py_float k = (if py_isfinite (real_of_int k) then Inr (real_of_int k) else Inl OverflowError)"

text \<open>\<^verbatim>\<open>a / b\<close> on two \<^verbatim>\<open>int\<close>s.\<close>

definition py_truediv :: "int \<Rightarrow> int \<Rightarrow> py_error + real" where
  "py_truediv a b =
     (if b = 0 then Inl ZeroDivisionError
      else if py_isfinite (real_of_int a / real_of_int b) then Inr (real_of_int a / real_of_int b)
      else Inl OverflowError)"

text \<open>\<^verbatim>\<open>math.exp(x)\<close> on a finite \<open>x\<close>.\<close>

definition math_exp :: "real \<Rightarrow> py_error + real" where
  "math_exp x = (if py_isfinite (exp x) then Inr (exp x) else Inl OverflowError)"

section \<open>Rounded float arithmetic\<close>

text \<open>
  In the rounded reading a float operation is the exact operation on the reals followed by
  a rounding \<open>fl\<close>, and a decimal literal \<open>d\<close> of the source that is not a binary fraction
  is \<open>fl d\<close> (so \<^verbatim>\<open>0.2\<close> is \<open>fl 0.2\<close>, while \<^verbatim>\<open>0.5\<close>, \<^verbatim>\<open>2.5\<close>, \<^verbatim>\<open>1.0\<close> and \<^verbatim>\<open>10\<close> are themselves).
  \<^verbatim>\<open>min\<close>, \<^verbatim>\<open>max\<close>, \<^verbatim>\<open>abs\<close> and the comparisons are exact on floats. The rounding is a
  parameter, as the shuffles are; \<open>is_rounding\<close> is what the theorems assume of it, three
  properties of IEEE 754 round-to-nearest on binary64: it is monotone, it leaves its own
  results unchanged, and it leaves unchanged every \<open>k / 2^j\<close> with \<open>|k| \<le> 2^53\<close> and
  \<open>j \<le> 16\<close> (these are representable).
\<close>

type_synonym rounding = "real \<Rightarrow> real"

definition is_rounding :: "rounding \<Rightarrow> bool" where
  "is_rounding fl =
     ((\<forall>x y. x \<le> y \<longrightarrow> fl x \<le> fl y)
      \<and> (\<forall>x. fl (fl x) = fl x)
      \<and> (\<forall>k j. \<bar>k\<bar> \<le> 2 ^ 53 \<and> j \<le> 16
            \<longrightarrow> fl (real_of_int k / 2 ^ j) = real_of_int k / 2 ^ j))"

text \<open>\<^verbatim>\<open>float(k)\<close> in the rounded reading: the conversion rounds, and overflows as above.\<close>

definition py_float_fl :: "rounding \<Rightarrow> int \<Rightarrow> py_error + real" where
  "py_float_fl fl k =
     (if py_isfinite (real_of_int k) then Inr (fl (real_of_int k)) else Inl OverflowError)"

section \<open>\<^verbatim>\<open>squid_formulas.py\<close>: PolicyCalculator\<close>

record PolicyCalculator =
  sr_min :: real
  gamma_t :: real

text \<open>
  \<^verbatim>\<open>PolicyCalculator()\<close>: the constructor's defaults, the only way the repository builds
  one (so \<open>gamma_t\<close>, a divisor below, is \<open>10.0\<close>).
\<close>

definition PolicyCalculator_init :: PolicyCalculator where
  "PolicyCalculator_init = \<lparr>sr_min = 1.0, gamma_t = 10.0\<rparr>"

definition clamp :: "real \<Rightarrow> real \<Rightarrow> real \<Rightarrow> real" where
  "clamp v min_val max_val = max min_val (min max_val v)"

definition calculate_decoy_rate :: "PolicyCalculator \<Rightarrow> real \<Rightarrow> real \<Rightarrow> real" where
  "calculate_decoy_rate self sr c =
     (if sr \<ge> sr_min self \<and> c \<ge> gamma_t self then
        (let base_rate = 0.2;
             scale_factor = min 2.5 ((sr + c / gamma_t self) / 10);
             decoy_rate = base_rate * scale_factor
         in clamp decoy_rate 0.2 0.5)
      else
        (let base_rate = 0.01;
             scale_factor = min 10 (sr + c / gamma_t self);
             decoy_rate = base_rate * scale_factor
         in clamp decoy_rate 0.01 0.1))"

text \<open>
  The loop \<^verbatim>\<open>for new_pos, old_pos in enumerate(indices): shuffled_actions[new_pos] =
  actions[old_pos]\<close> of \<^verbatim>\<open>generate_actions\<close>: the list of \<^verbatim>\<open>actions[old_pos]\<close> for the
  shuffled \<open>indices\<close> in order. An index outside \<open>actions\<close> raises \<^verbatim>\<open>IndexError\<close>. (The
  library shuffles in place, so \<open>indices\<close> keeps its length \<open>num_leaves\<close> and every cell of
  \<^verbatim>\<open>shuffled_actions\<close> is written.)
\<close>

fun gather :: "'a list \<Rightarrow> nat list \<Rightarrow> py_error + 'a list" where
  "gather actions [] = Inr []"
| "gather actions (old_pos # rest) =
     (if old_pos < length actions then
        (case gather actions rest of
           Inl e \<Rightarrow> Inl e
         | Inr shuffled \<Rightarrow> Inr (actions ! old_pos # shuffled))
      else Inl IndexError)"

text \<open>
  \<^verbatim>\<open>PolicyCalculator.generate_actions\<close>. Without a seed the list is returned as built;
  with a seed \<open>s\<close> it is rearranged along \<^verbatim>\<open>np.random.seed(s); np.random.shuffle(indices)\<close>.
\<close>

definition generate_actions ::
  "PolicyCalculator \<Rightarrow> shuffle \<Rightarrow> int \<Rightarrow> real \<Rightarrow> real \<Rightarrow> int option \<Rightarrow> py_error + action list" where
  "generate_actions self np_shuffle num_leaves sr c seed =
     (let decoy_rate = calculate_decoy_rate self sr c;
          num_decoy = py_int (real_of_int num_leaves * decoy_rate);
          num_mutate = (if sr \<ge> sr_min self then py_int (real_of_int num_leaves * 0.05) else 0);
          num_reassign = (if sr < sr_min self then py_int (real_of_int num_leaves * 0.05) else 0);
          num_valid = num_leaves - num_decoy - num_mutate - num_reassign;
          actions = py_repeat ''DECOY'' num_decoy @ py_repeat ''MUTATE'' num_mutate
                    @ py_repeat ''REASSIGN'' num_reassign @ py_repeat ''VALID'' num_valid
      in case seed of
           None \<Rightarrow> Inr actions
         | Some s \<Rightarrow> gather actions (np_shuffle s (py_range num_leaves)))"

text \<open>
  \<^verbatim>\<open>calculate_decoy_rate\<close> in the rounded reading. \<^verbatim>\<open>min(10, x)\<close> returns the \<^verbatim>\<open>int\<close> \<open>10\<close>
  or the float \<open>x\<close>; the product converts \<open>10\<close> exactly.
\<close>

definition calculate_decoy_rate_fl :: "rounding \<Rightarrow> PolicyCalculator \<Rightarrow> real \<Rightarrow> real \<Rightarrow> real" where
  "calculate_decoy_rate_fl fl self sr c =
     (if sr \<ge> sr_min self \<and> c \<ge> gamma_t self then
        (let base_rate = fl 0.2;
             scale_factor = min 2.5 (fl (fl (sr + fl (c / gamma_t self)) / 10));
             decoy_rate = fl (base_rate * scale_factor)
         in clamp decoy_rate (fl 0.2) 0.5)
      else
        (let base_rate = fl 0.01;
             scale_factor = min 10 (fl (sr + fl (c / gamma_t self)));
             decoy_rate = fl (base_rate * scale_factor)
         in clamp decoy_rate (fl 0.01) (fl 0.1)))"

text \<open>
  \<^verbatim>\<open>generate_actions\<close> in the rounded reading, with the exceptions of its library calls:
  \<^verbatim>\<open>np.random.seed(seed)\<close>, the first statement when a seed is given, raises \<^verbatim>\<open>ValueError\<close>
  unless \<open>0 \<le> seed < 2^32\<close>, and the products \<^verbatim>\<open>num_leaves * decoy_rate\<close> and
  \<^verbatim>\<open>num_leaves * 0.05\<close> convert \<open>num_leaves\<close> to a float.
\<close>

definition generate_actions_fl ::
  "rounding \<Rightarrow> PolicyCalculator \<Rightarrow> shuffle \<Rightarrow> int \<Rightarrow> real \<Rightarrow> real \<Rightarrow> int option
     \<Rightarrow> py_error + action list" where
  "generate_actions_fl fl self np_shuffle num_leaves sr c seed =
     (if (case seed of None \<Rightarrow> False | Some s \<Rightarrow> s < 0 \<or> 2 ^ 32 \<le> s) then Inl ValueError
      else
        (let decoy_rate = calculate_decoy_rate_fl fl self sr c
         in case py_float_fl fl num_leaves of
              Inl e \<Rightarrow> Inl e
            | Inr n \<Rightarrow>
                (let num_decoy = py_int (fl (n * decoy_rate));
                     num_mutate = (if sr \<ge> sr_min self then py_int (fl (n * fl 0.05)) else 0);
                     num_reassign = (if sr < sr_min self then py_int (fl (n * fl 0.05)) else 0);
                     num_valid = num_leaves - num_decoy - num_mutate - num_reassign;
                     actions = py_repeat ''DECOY'' num_decoy @ py_repeat ''MUTATE'' num_mutate
                               @ py_repeat ''REASSIGN'' num_reassign @ py_repeat ''VALID'' num_valid
                 in case seed of
                      None \<Rightarrow> Inr actions
                    | Some s \<Rightarrow> gather actions (np_shuffle s (py_range num_leaves)))))"

text \<open>
  \<^verbatim>\<open>validate_branching_params\<close>: the accepted ranges of \<open>b\<close>, \<open>m\<close>, \<open>t\<close>, checked in the
  source's order.
\<close>

definition validate_branching_params :: "(string \<rightharpoonup> int) \<Rightarrow> bool" where
  "validate_branching_params params =
     (case params ''b'' of None \<Rightarrow> False | Some b \<Rightarrow>
     (case params ''m'' of None \<Rightarrow> False | Some m \<Rightarrow>
     (case params ''t'' of None \<Rightarrow> False | Some t \<Rightarrow>
        if b < 2 \<or> b > 16 then False
        else if m < 1 \<or> m > 8 then False
        else if t < 64 \<or> t > 512 then False
        else (let total_leaves = b ^ nat m in
              if total_leaves > 10000 then False else True))))"

section \<open>\<^verbatim>\<open>squid_formulas.py\<close>: SuperRelationCalculator\<close>

text \<open>
  The fields carry the prefix \<open>sr_\<close> (the source has \<open>P_max\<close>, \<open>alpha\<close>, \<open>K\<close>, \<open>beta\<close>,
  \<open>lam\<close>, \<open>normalize_scale\<close>), so that one-letter field names do not capture variables.
\<close>

record SuperRelationCalculator =
  sr_P_max :: int
  sr_alpha :: real
  sr_K :: int
  sr_beta :: real
  sr_lam :: real
  sr_normalize_scale :: real

definition SuperRelationCalculator_init :: SuperRelationCalculator where
  "SuperRelationCalculator_init =
     \<lparr>sr_P_max = 4, sr_alpha = 1.5, sr_K = 2, sr_beta = 0.12, sr_lam = - 0.1,
      sr_normalize_scale = 1.0\<rparr>"

text \<open>\<^verbatim>\<open>_g_function\<close>: \<^verbatim>\<open>float(b) * math.log(b + 1.0)\<close>, where both operands convert \<open>b\<close>.\<close>

definition g_function :: "int \<Rightarrow> py_error + real" where
  "g_function b =
     (if b \<le> 0 then Inr 0.0
      else
        (case py_float b of
           Inl e \<Rightarrow> Inl e
         | Inr fb \<Rightarrow>
             (let result = fb * ln (fb + 1.0)
              in if result \<le> 0.0 then Inr 0.0001 else Inr result)))"

text \<open>
  \<^verbatim>\<open>_calculate_full_formula\<close>. Its only caller passes \<open>m > 0\<close>, so \<^verbatim>\<open>b ** m\<close> is the
  integer power. The \<^verbatim>\<open>for p in range(1, P_max + 1)\<close> loop is the fold over \<open>[1..P_max]\<close>
  with \<open>component3\<close> as accumulator; with the constructor's \<open>lam = -0.1\<close> and \<open>alpha = 1.5\<close>
  nothing in it can overflow or divide by zero. None of the function is inside a
  \<^verbatim>\<open>try\<close>: an \<^verbatim>\<open>OverflowError\<close> of \<^verbatim>\<open>(2 * t) / L\<close>, of the conversion of \<open>m - 1\<close> or \<open>b\<close>, or of
  \<^verbatim>\<open>math.exp\<close> leaves it. The returned product may be \<open>inf\<close>.
\<close>

definition calculate_full_formula ::
  "SuperRelationCalculator \<Rightarrow> int \<Rightarrow> int \<Rightarrow> int \<Rightarrow> py_error + real" where
  "calculate_full_formula self b m t =
     (let L = b ^ nat m in
      if L \<le> 0 then Inr 1.0
      else
        (case py_truediv (2 * t) L of
           Inl e \<Rightarrow> Inl e
         | Inr component1 \<Rightarrow>
        (case py_float (m - 1) of
           Inl e \<Rightarrow> Inl e
         | Inr m1 \<Rightarrow>
        (case math_exp (sr_beta self * m1) of
           Inl e \<Rightarrow> Inl e
         | Inr component2 \<Rightarrow>
             (let eps = 1 / 10 ^ 12;
                  component3 =
                    fold (\<lambda>p component3.
                            (let P = real_of_int p / real_of_int (sr_P_max self);
                                 prob_term = P * (1 - P) + eps;
                                 exp_term = exp (sr_lam self * real_of_int p);
                                 denom = (real_of_int p powr sr_alpha self) * prob_term
                             in component3 + exp_term / denom))
                         [1..sr_P_max self] 0.0
              in (case g_function b of
                    Inl e \<Rightarrow> Inl e
                  | Inr component4 \<Rightarrow>
                      Inr (component1 * component2 * component3 * component4)))))))"

text \<open>
  \<^verbatim>\<open>_calculate_simplified_formula\<close>, called with \<open>m > 0\<close> only as well. Its body is inside
  \<^verbatim>\<open>try: ... except: return 1.0\<close>, so every exception (of \<^verbatim>\<open>t / L\<close>, of the conversions in
  \<^verbatim>\<open>1.0 + b\<close> and \<^verbatim>\<open>1.0 + m\<close>, of a division by zero) gives \<open>1.0\<close>; so does an infinite or
  negative \<open>sr_simple\<close> (it cannot be NaN).
\<close>

definition calculate_simplified_formula :: "int \<Rightarrow> int \<Rightarrow> int \<Rightarrow> real" where
  "calculate_simplified_formula b m t =
     (let L = b ^ nat m in
      if L \<le> 0 then 1.0
      else
        (case py_truediv t L of
           Inl _ \<Rightarrow> 1.0
         | Inr q \<Rightarrow>
        (case py_float b of
           Inl _ \<Rightarrow> 1.0
         | Inr fb \<Rightarrow>
        (case py_float m of
           Inl _ \<Rightarrow> 1.0
         | Inr fm \<Rightarrow>
             if 1.0 + fm = 0 then 1.0
             else
               (let sr_simple = q * (1.0 + fb) / (1.0 + fm)
                in if \<not> py_isfinite sr_simple \<or> sr_simple < 0.0 then 1.0 else sr_simple)))))"

text \<open>
  \<^verbatim>\<open>SuperRelationCalculator.calculate\<close>. A missing key raises \<^verbatim>\<open>KeyError\<close>, and an
  exception of \<^verbatim>\<open>_calculate_full_formula\<close> leaves the function. \<^verbatim>\<open>math.log1p(x)\<close> is
  \<open>ln (1 + x)\<close>. The normalization is inside \<^verbatim>\<open>try: ... except Exception: return 0.0\<close>.
\<close>

definition SuperRelationCalculator_calculate ::
  "SuperRelationCalculator \<Rightarrow> (string \<rightharpoonup> int) \<Rightarrow> py_error + real" where
  "SuperRelationCalculator_calculate self params =
     (case params ''b'' of None \<Rightarrow> Inl KeyError | Some b \<Rightarrow>
     (case params ''m'' of None \<Rightarrow> Inl KeyError | Some m \<Rightarrow>
     (case params ''t'' of None \<Rightarrow> Inl KeyError | Some t \<Rightarrow>
        if b \<le> 0 \<or> m \<le> 0 \<or> t \<le> 0 then Inr 1.0
        else
          (case calculate_full_formula self b m t of
             Inl e \<Rightarrow> Inl e
           | Inr raw0 \<Rightarrow>
               (let raw = (if \<not> py_isfinite raw0 \<or> raw0 < 0.0 \<or> raw0 > 10 ^ 9
                           then calculate_simplified_formula b m t else raw0);
                    norm_input = ln (1 + \<bar>raw\<bar>) * (if raw \<ge> 0 then 1.0 else - 1.0);
                    s = max 0.001 (sr_normalize_scale self)
                in (case math_exp (- s * (norm_input - 0.0)) of
                      Inl _ \<Rightarrow> Inr 0.0
                    | Inr ex \<Rightarrow>
                        (let normalized = 1.0 / (1.0 + ex)
                         in Inr (max 0.0 (min 1.0 normalized)))))))))"

section \<open>\<^verbatim>\<open>squid_formulas.py\<close>: CorrelationCalculator\<close>

record CorrelationCalculator =
  c_a :: real
  c_P :: real
  c_normalize_scale :: real

definition CorrelationCalculator_init :: CorrelationCalculator where
  "CorrelationCalculator_init = \<lparr>c_a = 0.5, c_P = 0.1, c_normalize_scale = 1.0\<rparr>"

text \<open>
  \<^verbatim>\<open>CorrelationCalculator.calculate\<close>. The numerator converts \<open>t\<close>, \<open>b\<close> (in \<^verbatim>\<open>b ** self.a\<close>)
  and \<open>b * m\<close> to floats, and \<^verbatim>\<open>self.P ** (2 * d + 1)\<close> raises \<^verbatim>\<open>OverflowError\<close> when it
  overflows; both stand before the \<^verbatim>\<open>try\<close>. For a negative \<open>b\<close>, \<^verbatim>\<open>b ** 0.5\<close> is a Python
  \<^verbatim>\<open>complex\<close>; the comparison \<^verbatim>\<open>raw >= 0\<close> inside the \<^verbatim>\<open>try\<close> then raises \<^verbatim>\<open>TypeError\<close>, and
  the handler returns \<open>0.0\<close>, as it does when \<^verbatim>\<open>math.exp\<close> overflows.
\<close>

definition CorrelationCalculator_calculate ::
  "CorrelationCalculator \<Rightarrow> (string \<rightharpoonup> int) \<Rightarrow> int option \<Rightarrow> py_error + real" where
  "CorrelationCalculator_calculate self params d_opt =
     (case params ''b'' of None \<Rightarrow> Inl KeyError | Some b \<Rightarrow>
     (case params ''m'' of None \<Rightarrow> Inl KeyError | Some m \<Rightarrow>
     (case params ''t'' of None \<Rightarrow> Inl KeyError | Some t \<Rightarrow>
        (let d = (case d_opt of None \<Rightarrow> m | Some d' \<Rightarrow> d');
             eps = 1 / 10 ^ 12
         in (case py_float t of
               Inl e \<Rightarrow> Inl e
             | Inr ft \<Rightarrow>
            (case py_float b of
               Inl e \<Rightarrow> Inl e
             | Inr fb \<Rightarrow>
            (case py_float (b * m) of
               Inl e \<Rightarrow> Inl e
             | Inr fbm \<Rightarrow>
                 if \<not> py_isfinite (c_P self powi (2 * d + 1)) then Inl OverflowError
                 else if b < 0 then Inr 0.0
                 else
                   (let numerator = ft * (fb powr c_a self) * fbm;
                        denom = max eps (c_P self powi (2 * d + 1));
                        raw = numerator / denom;
                        norm_input = ln (1 + \<bar>raw\<bar>) * (if raw \<ge> 0 then 1.0 else - 1.0);
                        s = max 0.001 (c_normalize_scale self)
                    in (case math_exp (- s * (norm_input - 0.0)) of
                          Inl _ \<Rightarrow> Inr 0.0
                        | Inr ex \<Rightarrow>
                            (let normalized = 1.0 / (1.0 + ex)
                             in Inr (max 0.0 (min 1.0 normalized))))))))))))"

section \<open>\<^verbatim>\<open>decision_engine.py\<close>: the rotation planner\<close>

text \<open>
  The returned dictionary, with its keys \<open>rotation_percentage\<close>, \<open>rotation_count\<close>,
  \<open>indices\<close> and \<open>risk\<close> (the last two as \<open>plan_indices\<close> and \<open>plan_risk\<close>).
\<close>

record RotationPlan =
  rotation_percentage :: real
  rotation_count :: int
  plan_indices :: "nat list"
  plan_risk :: real

text \<open>
  \<^verbatim>\<open>plan_rotations\<close>. The generator is \<^verbatim>\<open>random.Random(seed)\<close>, or \<^verbatim>\<open>random.Random(0)\<close>
  when no seed is given; \<open>rnd_shuffle\<close> is its \<^verbatim>\<open>shuffle\<close>.
\<close>

definition plan_rotations :: "shuffle \<Rightarrow> int \<Rightarrow> real \<Rightarrow> real \<Rightarrow> int option \<Rightarrow> RotationPlan" where
  "plan_rotations rnd_shuffle num_leaves sr_norm c_norm seed =
     (let rnd = (case seed of Some s \<Rightarrow> s | None \<Rightarrow> 0);
          risk = (1.0 - sr_norm) * 0.6 + c_norm * 0.4;
          pct = 0.03 + (0.20 - 0.03) * min 1.0 (max 0.0 risk);
          count = max 1 \<lceil>real_of_int num_leaves * pct\<rceil>;
          indices = rnd_shuffle rnd (py_range num_leaves);
          selected = sort (take (nat count) indices)
      in \<lparr>rotation_percentage = pct, rotation_count = count, plan_indices = selected,
          plan_risk = risk\<rparr>)"

text \<open>
  \<^verbatim>\<open>plan_rotations\<close> in the rounded reading. \<^verbatim>\<open>random.Random\<close> accepts every \<^verbatim>\<open>int\<close> as a
  seed; the product \<^verbatim>\<open>num_leaves * pct\<close> converts \<open>num_leaves\<close> to a float.
\<close>

definition plan_rotations_fl ::
  "rounding \<Rightarrow> shuffle \<Rightarrow> int \<Rightarrow> real \<Rightarrow> real \<Rightarrow> int option \<Rightarrow> py_error + RotationPlan" where
  "plan_rotations_fl fl rnd_shuffle num_leaves sr_norm c_norm seed =
     (let rnd = (case seed of Some s \<Rightarrow> s | None \<Rightarrow> 0);
          risk = fl (fl (fl (1.0 - sr_norm) * fl 0.6) + fl (c_norm * fl 0.4));
          pct = fl (fl 0.03 + fl (fl (fl 0.20 - fl 0.03) * min 1.0 (max 0.0 risk)))
      in case py_float_fl fl num_leaves of
           Inl e \<Rightarrow> Inl e
         | Inr n \<Rightarrow>
             (let count = max 1 \<lceil>fl (n * pct)\<rceil>;
                  indices = rnd_shuffle rnd (py_range num_leaves);
                  selected = sort (take (nat count) indices)
              in Inr \<lparr>rotation_percentage = pct, rotation_count = count,
                      plan_indices = selected, plan_risk = risk\<rparr>))"

section \<open>\<^verbatim>\<open>squid_model.py\<close>: the reconciler\<close>

text \<open>
  The body of the loop \<^verbatim>\<open>for i in range(min(num_policy_decoys, len(policy_indices)))\<close> of
  \<^verbatim>\<open>_apply_policy_constraints\<close>, as a function of \<open>i\<close> and of the current \<open>blended_actions\<close>.
\<close>

definition blend_step :: "nat list \<Rightarrow> action list \<Rightarrow> nat \<Rightarrow> action list \<Rightarrow> action list" where
  "blend_step policy_indices policy_actions i blended_actions =
     (let idx = policy_indices ! i
      in if idx < length blended_actions
         then blended_actions[idx := policy_actions ! idx] else blended_actions)"

text \<open>
  \<^verbatim>\<open>SquidModel._apply_policy_constraints\<close>, in the rounded reading; \<open>policy_calc\<close> is the
  model's \<^verbatim>\<open>self.policy_calc\<close>. \<^verbatim>\<open>decoy_count / total_actions\<close> divides two \<^verbatim>\<open>int\<close>s, with a
  correctly rounded quotient; the divisor \<^verbatim>\<open>expected_decoy_rate + 0.01\<close> is positive, the rate
  being clamped from below by a positive literal. The loop is the fold of \<open>blend_step\<close> over
  its range, starting from the copy of \<open>actions\<close>; \<open>i\<close> stays below \<open>len(policy_indices)\<close>, so
  \<^verbatim>\<open>policy_indices[i]\<close> is in range, and so is \<^verbatim>\<open>policy_actions[idx]\<close>, \<open>idx\<close> being a position
  of \<open>policy_actions\<close>.
\<close>

definition apply_policy_constraints ::
  "rounding \<Rightarrow> PolicyCalculator \<Rightarrow> shuffle \<Rightarrow> action list \<Rightarrow> real \<Rightarrow> real
     \<Rightarrow> py_error + action list" where
  "apply_policy_constraints fl policy_calc np_shuffle actions sr c =
     (let total_actions = int (length actions) in
      if total_actions = 0 then Inr actions
      else
        (let expected_decoy_rate = calculate_decoy_rate_fl fl policy_calc sr c;
             decoy_count = int (count_list actions ''DECOY'');
             current_decoy_rate = fl (real_of_int decoy_count / real_of_int total_actions);
             rate_deviation =
               fl (\<bar>fl (current_decoy_rate - expected_decoy_rate)\<bar>
                     / fl (expected_decoy_rate + fl 0.01))
         in if rate_deviation > fl 0.2 then
              (case generate_actions_fl fl policy_calc np_shuffle total_actions sr c (Some 42) of
                 Inl e \<Rightarrow> Inl e
               | Inr policy_actions \<Rightarrow>
                   (let policy_indices =
                          filter (\<lambda>i. policy_actions ! i = ''DECOY'') [0..<length policy_actions];
                        num_policy_decoys =
                          py_int (fl (fl (fl (real_of_int total_actions) * expected_decoy_rate)
                                        * fl 0.2));
                        blended_actions =
                          fold (blend_step policy_indices policy_actions)
                               (py_range (min num_policy_decoys (int (length policy_indices))))
                               actions
                    in Inr blended_actions))
            else Inr actions))"

section \<open>\<^verbatim>\<open>ipc_daemon.py\<close>: the decide operation and the entropy budget\<close>

text \<open>The process state: the module-level \<^verbatim>\<open>ENTROPY_BUDGET\<close>, \<open>100.0\<close> at start.\<close>

record daemon_state =
  ENTROPY_BUDGET :: real

definition initial_state :: daemon_state where
  "initial_state = \<lparr>ENTROPY_BUDGET = 100.0\<rparr>"

text \<open>
  The payload of a decide request. \<^verbatim>\<open>payload.get('params', {})\<close> reads an absent entry as
  the empty dictionary and \<^verbatim>\<open>payload.get('features', [])\<close> as the empty list; only the
  length of \<open>features\<close> is used, so the leaf descriptors stay of an arbitrary type
  \<open>'f\<close>; the optional \<^verbatim>\<open>seed_model_hash\<close> is of an arbitrary type \<open>'s\<close> as well.
\<close>

record ('f, 's) payload =
  payload_params :: "string \<rightharpoonup> int"
  payload_features :: "'f list"
  payload_seed_model_hash :: "'s option"

record DecisionRecord =
  dr_sr :: real
  dr_c :: real
  dr_actions :: "action list"
  dr_rotation_plan :: RotationPlan
  dr_decision :: string
  dr_confidence :: real
  dr_drivers :: "string list"
  entropy_budget_remaining :: real

text \<open>\<^verbatim>\<open>sanitize\<close>: a real is neither \<^verbatim>\<open>None\<close> nor NaN nor infinite, so the value is kept.\<close>

definition sanitize :: "real \<Rightarrow> real" where
  "sanitize v = v"

text \<open>\<^verbatim>\<open>_compute_ai_explanation\<close>: decision, confidence, drivers.\<close>

definition compute_ai_explanation :: "real \<Rightarrow> real \<Rightarrow> RotationPlan \<Rightarrow> string \<times> real \<times> string list" where
  "compute_ai_explanation sr c rotation_plan =
     (let risk = plan_risk rotation_plan;
          rot_count = rotation_count rotation_plan;
          drivers = (if sr < 0.4 then [''fingerprint_drift''] else [])
                    @ (if c > 0.7 then [''entropy_spike''] else [])
                    @ (if risk > 0.6 then [''low_temporal_coherence''] else []);
          decision = (if rot_count > 0 \<and> risk \<ge> 0.4 then ''MUTATE_TREE''
                      else if rot_count > 0 then ''INSERT_DECOY'' else ''HOLD_STATE'');
          confidence = (if rot_count > 0 \<and> risk \<ge> 0.4 then min 1.0 (0.7 + risk * 0.3)
                        else if rot_count > 0 then 0.6 + risk * 0.2 else 0.6);
          drivers' = (if drivers = [] then [''stable_conditions''] else drivers)
      in (decision, max 0.0 (min 1.0 confidence), drivers'))"

text \<open>
  The \<^verbatim>\<open>try\<close> block of \<^verbatim>\<open>handle_decide\<close>, followed by \<^verbatim>\<open>sanitize\<close>: both metrics, or
  \<open>(0.0, 0.0)\<close> when either calculator raises.
\<close>

definition decide_metrics :: "(string \<rightharpoonup> int) \<Rightarrow> real \<times> real" where
  "decide_metrics params =
     (let (sr, c) =
            (case SuperRelationCalculator_calculate SuperRelationCalculator_init params of
               Inl _ \<Rightarrow> (0.0, 0.0)
             | Inr sr \<Rightarrow>
                 (case CorrelationCalculator_calculate CorrelationCalculator_init params None of
                    Inl _ \<Rightarrow> (0.0, 0.0)
                  | Inr c \<Rightarrow> (sr, c)))
      in (sanitize sr, sanitize c))"

text \<open>
  \<^verbatim>\<open>handle_decide\<close>, with the global budget passed in and returned. The local \<open>seed\<close>,
  read from the payload, is not used again, as in the source. An exception of
  \<^verbatim>\<open>generate_actions\<close> leaves the function before the budget is written.
\<close>

definition handle_decide ::
  "shuffle \<Rightarrow> shuffle \<Rightarrow> daemon_state \<Rightarrow> ('f, 's) payload \<Rightarrow> py_error + (DecisionRecord \<times> daemon_state)" where
  "handle_decide np_shuffle rnd_shuffle st payload =
     (let params = payload_params payload;
          features = payload_features payload;
          seed = payload_seed_model_hash payload;
          policy = PolicyCalculator_init;
          (sr, c) = decide_metrics params;
          locked = (ENTROPY_BUDGET st \<le> 0.0);
          seed_val = (if locked then Some 42 else None)
      in case generate_actions policy np_shuffle (int (length features)) sr c seed_val of
           Inl e \<Rightarrow> Inl e
         | Inr actions \<Rightarrow>
             (let rotation_plan = plan_rotations rnd_shuffle (int (length features)) sr c seed_val;
                  st' = (if \<not> locked
                         then st\<lparr>ENTROPY_BUDGET :=
                                   ENTROPY_BUDGET st
                                   - (0.5 + 0.01 * real_of_int (rotation_count rotation_plan))\<rparr>
                         else st);
                  (decision, confidence, drivers) = compute_ai_explanation sr c rotation_plan
              in Inr (\<lparr>dr_sr = sr, dr_c = c, dr_actions = actions,
                        dr_rotation_plan = rotation_plan, dr_decision = decision,
                        dr_confidence = confidence, dr_drivers = drivers,
                        entropy_budget_remaining = max 0.0 (ENTROPY_BUDGET st')\<rparr>, st')))"

text \<open>
  \<^verbatim>\<open>process_message\<close> on a \<open>decide\<close> command: an exception becomes an error response and
  the state is the one the handler left, which is the old one.
\<close>

definition process_decide ::
  "shuffle \<Rightarrow> shuffle \<Rightarrow> daemon_state \<Rightarrow> ('f, 's) payload \<Rightarrow> (py_error + DecisionRecord) \<times> daemon_state" where
  "process_decide np_shuffle rnd_shuffle st payload =
     (case handle_decide np_shuffle rnd_shuffle st payload of
        Inl e \<Rightarrow> (Inl e, st)
      | Inr (r, st') \<Rightarrow> (Inr r, st'))"

text \<open>The daemon loop on a sequence of decide requests: the state after the last one.\<close>

fun run_daemon :: "shuffle \<Rightarrow> shuffle \<Rightarrow> daemon_state \<Rightarrow> ('f, 's) payload list \<Rightarrow> daemon_state" where
  "run_daemon np_shuffle rnd_shuffle st [] = st"
| "run_daemon np_shuffle rnd_shuffle st (payload # rest) =
     run_daemon np_shuffle rnd_shuffle (snd (process_decide np_shuffle rnd_shuffle st payload)) rest"

section \<open>Auxiliary notions for the statements\<close>

text \<open>
  The list \<^verbatim>\<open>actions\<close> of \<^verbatim>\<open>generate_actions\<close> before shuffling, for the default policy
  and a leaf count \<open>n \<ge> 0\<close> (lemma \<open>generate_actions_unfold\<close> relates it to the source's
  computation): exactly one of \<open>num_mutate\<close> and \<open>num_reassign\<close> is \<open>\<lfloor>n \<sqdot> 0.05\<rfloor>\<close>, the
  other is \<open>0\<close>.
\<close>

definition policy_multiset :: "int \<Rightarrow> real \<Rightarrow> real \<Rightarrow> action list" where
  "policy_multiset n sr c =
     replicate (nat \<lfloor>real_of_int n * calculate_decoy_rate PolicyCalculator_init sr c\<rfloor>) ''DECOY''
     @ replicate (if sr \<ge> 1 then nat \<lfloor>real_of_int n * 0.05\<rfloor> else 0) ''MUTATE''
     @ replicate (if sr < 1 then nat \<lfloor>real_of_int n * 0.05\<rfloor> else 0) ''REASSIGN''
     @ replicate (nat (n - \<lfloor>real_of_int n * calculate_decoy_rate PolicyCalculator_init sr c\<rfloor>
                        - \<lfloor>real_of_int n * 0.05\<rfloor>)) ''VALID''"

text \<open>
  What the theorems assume of a library shuffle: under every seed, the result is a
  permutation of the list it is given.
\<close>

definition is_shuffle :: "shuffle \<Rightarrow> bool" where
  "is_shuffle f = (\<forall>s xs. mset (f s xs) = mset xs)"

text \<open>
  The list \<^verbatim>\<open>actions\<close> of \<^verbatim>\<open>generate_actions\<close> before shuffling in the rounded reading, for
  the default policy and a leaf count \<open>0 \<le> n \<le> 2^53\<close>, where the conversion of \<open>n\<close> is exact
  (lemma \<open>generate_actions_fl_unfold\<close> relates it to the source's computation).
\<close>

definition policy_multiset_fl :: "rounding \<Rightarrow> int \<Rightarrow> real \<Rightarrow> real \<Rightarrow> action list" where
  "policy_multiset_fl fl n sr c =
     replicate (nat \<lfloor>fl (real_of_int n * calculate_decoy_rate_fl fl PolicyCalculator_init sr c)\<rfloor>)
               ''DECOY''
     @ replicate (if sr \<ge> 1 then nat \<lfloor>fl (real_of_int n * fl 0.05)\<rfloor> else 0) ''MUTATE''
     @ replicate (if sr < 1 then nat \<lfloor>fl (real_of_int n * fl 0.05)\<rfloor> else 0) ''REASSIGN''
     @ replicate (nat (n - \<lfloor>fl (real_of_int n * calculate_decoy_rate_fl fl PolicyCalculator_init sr c)\<rfloor>
                        - \<lfloor>fl (real_of_int n * fl 0.05)\<rfloor>)) ''VALID''"

text \<open>
  The quantity \<^verbatim>\<open>rate_deviation\<close> that \<^verbatim>\<open>_apply_policy_constraints\<close> compares with \<^verbatim>\<open>0.2\<close>,
  computed as in the source from the predictor's \<open>actions\<close>.
\<close>

definition rate_deviation :: "rounding \<Rightarrow> PolicyCalculator \<Rightarrow> action list \<Rightarrow> real \<Rightarrow> real \<Rightarrow> real" where
  "rate_deviation fl policy_calc actions sr c =
     (let total_actions = int (length actions);
          expected_decoy_rate = calculate_decoy_rate_fl fl policy_calc sr c;
          decoy_count = int (count_list actions ''DECOY'');
          current_decoy_rate = fl (real_of_int decoy_count / real_of_int total_actions)
      in fl (\<bar>fl (current_decoy_rate - expected_decoy_rate)\<bar>
               / fl (expected_decoy_rate + fl 0.01)))"

text \<open>
  Two facts about the constants of \<^verbatim>\<open>plan_rotations\<close> that depend on the rounding of the
  literals themselves: the float \<^verbatim>\<open>0.20 - 0.03\<close> is the float \<^verbatim>\<open>0.17\<close>, and the float
  \<^verbatim>\<open>0.03 + 0.17\<close> does not exceed the float \<^verbatim>\<open>0.20\<close>. Both hold in binary64, where
  \<^verbatim>\<open>0.20 - 0.03 == 0.17\<close> and \<^verbatim>\<open>0.03 + 0.17 == 0.2\<close>.
\<close>

definition planner_constants :: "rounding \<Rightarrow> bool" where
  "planner_constants fl =
     (fl (fl 0.20 - fl 0.03) = fl 0.17 \<and> fl (fl 0.03 + fl 0.17) \<le> fl 0.20)"

text \<open>
  The normalization as the specification words it (section 4.1):
  \<open>sigmoid(scale \<sqdot> log1p(|raw|) \<sqdot> sign(raw))\<close> with \<open>scale = 1.0\<close>, clamped to \<open>[0, 1]\<close>. It is
  compared with the source's computation in lemma \<open>calculate_normalizes_raw_score\<close>.
\<close>

definition spec_normalized_image :: "real \<Rightarrow> real" where
  "spec_normalized_image raw =
     max 0 (min 1 (1 / (1 + exp (- (1.0 * ln (1 + \<bar>raw\<bar>) * sgn raw)))))"

section \<open>Properties of the policy engine\<close>

lemma decoy_rate_default_bounds:
  "0.01 \<le> calculate_decoy_rate PolicyCalculator_init sr c
   \<and> calculate_decoy_rate PolicyCalculator_init sr c \<le> 0.5"
  by (auto simp: calculate_decoy_rate_def PolicyCalculator_init_def clamp_def Let_def max_def min_def)

text \<open>
  Claim C8. With the default thresholds (\<open>sr_min = 1.0\<close>, \<open>gamma_t = 10.0\<close>) the decoy rate is
  \<open>clamp(0.2 \<sqdot> min(2.5, (SR + C/10)/10), 0.2, 0.5)\<close> when \<open>SR \<ge> 1.0\<close> and \<open>C \<ge> 10.0\<close>, and
  \<open>clamp(0.01 \<sqdot> min(10, SR + C/10), 0.01, 0.1)\<close> otherwise; for \<open>SR = 2.5\<close>, \<open>C = 15.0\<close>
  the rate lies in \<open>[0.2, 0.5]\<close>.
\<close>

theorem C8_decoy_rate_rule:
  "calculate_decoy_rate PolicyCalculator_init sr c =
     (if sr \<ge> 1.0 \<and> c \<ge> 10.0
      then max 0.2 (min 0.5 (0.2 * min 2.5 ((sr + c / 10) / 10)))
      else max 0.01 (min 0.1 (0.01 * min 10 (sr + c / 10))))
   \<and> 0.2 \<le> calculate_decoy_rate PolicyCalculator_init 2.5 15.0
   \<and> calculate_decoy_rate PolicyCalculator_init 2.5 15.0 \<le> 0.5"
  by (simp add: calculate_decoy_rate_def PolicyCalculator_init_def clamp_def Let_def)

lemma py_int_nonneg: "0 \<le> x \<Longrightarrow> py_int x = \<lfloor>x\<rfloor>"
  by (simp add: py_int_def)

lemma gather_perm:
  assumes "set idx \<subseteq> {0..<length xs}"
  shows "gather xs idx = Inr (map (\<lambda>i. xs ! i) idx)"
  using assms by (induction idx) auto

lemma mset_map_nth_perm:
  assumes "mset idx = mset [0..<length xs]"
  shows "mset (map (\<lambda>i. xs ! i) idx) = mset xs"
proof -
  have "mset (map (\<lambda>i. xs ! i) idx) = image_mset (\<lambda>i. xs ! i) (mset idx)" by simp
  also have "\<dots> = image_mset (\<lambda>i. xs ! i) (mset [0..<length xs])" using assms by simp
  also have "\<dots> = mset (map (\<lambda>i. xs ! i) [0..<length xs])" by simp
  also have "\<dots> = mset xs" by (simp add: map_nth)
  finally show ?thesis .
qed

lemma counts_fit:
  fixes r :: real
  assumes "0 \<le> n" "0 \<le> r" "r \<le> 0.5"
  shows "\<lfloor>real_of_int n * r\<rfloor> + \<lfloor>real_of_int n * 0.05\<rfloor> \<le> n"
proof -
  define x where "x = \<lfloor>real_of_int n * r\<rfloor>"
  define y where "y = \<lfloor>real_of_int n * 0.05\<rfloor>"
  have h: "real_of_int n * r \<le> real_of_int n * (1 / 2)"
    using assms by (intro mult_left_mono) auto
  have fx: "real_of_int x \<le> real_of_int n * r"
    unfolding x_def by (rule of_int_floor_le)
  have a: "real_of_int x \<le> real_of_int n / 2"
    using h fx by linarith
  have e: "real_of_int n * 0.05 = real_of_int n / 20" by simp
  have "real_of_int y \<le> real_of_int n * 0.05"
    unfolding y_def by (rule of_int_floor_le)
  then have b: "real_of_int y \<le> real_of_int n / 20"
    unfolding e .
  have "real_of_int (x + y) \<le> real_of_int n"
    using a b assms(1) by simp
  then have "x + y \<le> n" by linarith
  then show ?thesis by (simp add: x_def y_def)
qed

lemma length_policy_multiset:
  assumes "0 \<le> n"
  shows "length (policy_multiset n sr c) = nat n"
proof -
  define r where "r = calculate_decoy_rate PolicyCalculator_init sr c"
  have r: "0 \<le> r" "r \<le> 0.5"
    using decoy_rate_default_bounds [of sr c] by (simp_all add: r_def)
  have fit: "\<lfloor>real_of_int n * r\<rfloor> + \<lfloor>real_of_int n * 0.05\<rfloor> \<le> n"
    using counts_fit [OF assms r] .
  have x: "0 \<le> \<lfloor>real_of_int n * r\<rfloor>" using assms r by simp
  have y: "0 \<le> \<lfloor>real_of_int n * 0.05\<rfloor>" using assms by simp
  show ?thesis
    unfolding policy_multiset_def r_def [symmetric]
    using fit x y assms by (cases "sr \<ge> 1") (simp_all, linarith+)
qed

lemma generate_actions_unfold:
  assumes "0 \<le> n"
  shows "generate_actions PolicyCalculator_init np_shuffle n sr c seed =
           (case seed of None \<Rightarrow> Inr (policy_multiset n sr c)
            | Some s \<Rightarrow> gather (policy_multiset n sr c) (np_shuffle s [0..<nat n]))"
proof -
  define r where "r = calculate_decoy_rate PolicyCalculator_init sr c"
  have r: "0 \<le> r" "r \<le> 0.5"
    using decoy_rate_default_bounds [of sr c] by (simp_all add: r_def)
  have 1: "py_int (real_of_int n * r) = \<lfloor>real_of_int n * r\<rfloor>"
    using assms r by (simp add: py_int_nonneg)
  have 2: "py_int (real_of_int n * 0.05) = \<lfloor>real_of_int n * 0.05\<rfloor>"
    using assms by (simp add: py_int_nonneg)
  show ?thesis
    unfolding generate_actions_def policy_multiset_def r_def [symmetric] Let_def 1 2
    by (simp add: PolicyCalculator_init_def py_repeat_def py_range_def split: option.splits)
qed

lemma generate_actions_ok:
  assumes "is_shuffle np_shuffle" "0 \<le> n"
  shows "\<exists>acts. generate_actions PolicyCalculator_init np_shuffle n sr c seed = Inr acts
               \<and> mset acts = mset (policy_multiset n sr c)"
proof (cases seed)
  case None
  then show ?thesis by (simp add: generate_actions_unfold [OF assms(2)])
next
  case (Some s)
  let ?base = "policy_multiset n sr c"
  let ?idx = "np_shuffle s [0..<nat n]"
  have len: "length ?base = nat n" by (rule length_policy_multiset [OF assms(2)])
  have m: "mset ?idx = mset [0..<length ?base]"
    using assms(1) by (simp add: is_shuffle_def len)
  then have "set ?idx = set [0..<length ?base]" by (rule mset_eq_setD)
  then have "gather ?base ?idx = Inr (map (\<lambda>i. ?base ! i) ?idx)"
    by (intro gather_perm) simp
  moreover have "mset (map (\<lambda>i. ?base ! i) ?idx) = mset ?base"
    by (rule mset_map_nth_perm [OF m])
  ultimately show ?thesis
    by (simp add: generate_actions_unfold [OF assms(2)] Some)
qed

lemma count_list_replicate_eq: "count_list (replicate k a) x = (if x = a then k else 0)"
  by (induction k) auto

lemma count_list_mset_cong: "mset xs = mset ys \<Longrightarrow> count_list xs x = count_list ys x"
  by (metis count_mset)

section \<open>Properties of the rotation planner\<close>

lemma rotation_pct_bounds:
  fixes risk :: real
  shows "0.03 \<le> 0.03 + (0.20 - 0.03) * min 1.0 (max 0.0 risk)"
    and "0.03 + (0.20 - 0.03) * min 1.0 (max 0.0 risk) \<le> 0.20"
    and "0 \<le> 0.03 + (0.20 - 0.03) * min 1.0 (max 0.0 risk)"
    and "0.03 + (0.20 - 0.03) * min 1.0 (max 0.0 risk) \<le> 1"
  by (simp_all add: min_def max_def)

section \<open>Properties of the decide operation and the entropy budget\<close>

lemma handle_decide_locked:
  assumes "ENTROPY_BUDGET st \<le> 0"
    and "decide_metrics (payload_params payload) = (sr, c)"
    and "generate_actions PolicyCalculator_init np_shuffle (int (length (payload_features payload))) sr c (Some 42) = Inr actions"
  shows "\<exists>r. handle_decide np_shuffle rnd_shuffle st payload = Inr (r, st)
           \<and> dr_sr r = sr \<and> dr_c r = c \<and> dr_actions r = actions
           \<and> dr_rotation_plan r
               = plan_rotations rnd_shuffle (int (length (payload_features payload))) sr c (Some 42)
           \<and> entropy_budget_remaining r = 0"
  using assms by (simp add: handle_decide_def Let_def split: prod.splits)

lemma handle_decide_active:
  assumes "0 < ENTROPY_BUDGET st"
    and "decide_metrics (payload_params payload) = (sr, c)"
    and "generate_actions PolicyCalculator_init np_shuffle (int (length (payload_features payload))) sr c None = Inr actions"
  shows "\<exists>r. handle_decide np_shuffle rnd_shuffle st payload
                = Inr (r, st\<lparr>ENTROPY_BUDGET := ENTROPY_BUDGET st - (0.5 + 0.01 * real_of_int (rotation_count (dr_rotation_plan r)))\<rparr>)
           \<and> dr_sr r = sr \<and> dr_c r = c \<and> dr_actions r = actions
           \<and> dr_rotation_plan r
               = plan_rotations rnd_shuffle (int (length (payload_features payload))) sr c None
           \<and> entropy_budget_remaining r
               = max 0 (ENTROPY_BUDGET st - (0.5 + 0.01 * real_of_int (rotation_count (dr_rotation_plan r))))"
  using assms by (simp add: handle_decide_def Let_def split: prod.splits)

lemma rotation_count_pos: "1 \<le> rotation_count (plan_rotations rnd_shuffle n sr c seed)"
  by (simp add: plan_rotations_def Let_def)

lemma handle_decide_state:
  assumes "handle_decide np_shuffle rnd_shuffle st payload = Inr (r, st')"
  shows "st' = (if ENTROPY_BUDGET st \<le> 0 then st
                else st\<lparr>ENTROPY_BUDGET :=
                          ENTROPY_BUDGET st
                          - (0.5 + 0.01 * real_of_int (rotation_count (dr_rotation_plan r)))\<rparr>)"
    and "1 \<le> rotation_count (dr_rotation_plan r)"
  using assms
  by (auto simp: handle_decide_def Let_def rotation_count_pos split: sum.splits prod.splits if_splits)

lemma process_decide_budget:
  "ENTROPY_BUDGET (snd (process_decide np_shuffle rnd_shuffle st payload)) \<le> ENTROPY_BUDGET st"
proof (cases "handle_decide np_shuffle rnd_shuffle st payload")
  case (Inl e)
  then show ?thesis by (simp add: process_decide_def)
next
  case (Inr res)
  obtain r st' where res: "res = (r, st')" by (cases res)
  have h: "handle_decide np_shuffle rnd_shuffle st payload = Inr (r, st')"
    using Inr res by simp
  have "ENTROPY_BUDGET st' \<le> ENTROPY_BUDGET st"
    using handle_decide_state [OF h] by (simp split: if_splits)
  then show ?thesis by (simp add: process_decide_def h)
qed

lemma run_daemon_append:
  "run_daemon np_shuffle rnd_shuffle st (ps @ qs)
     = run_daemon np_shuffle rnd_shuffle (run_daemon np_shuffle rnd_shuffle st ps) qs"
  by (induction ps arbitrary: st) simp_all

lemma run_daemon_budget:
  "ENTROPY_BUDGET (run_daemon np_shuffle rnd_shuffle st ps) \<le> ENTROPY_BUDGET st"
proof (induction ps arbitrary: st)
  case Nil
  show ?case by simp
next
  case (Cons p ps)
  have "ENTROPY_BUDGET (run_daemon np_shuffle rnd_shuffle st (p # ps))
          \<le> ENTROPY_BUDGET (snd (process_decide np_shuffle rnd_shuffle st p))"
    using Cons.IH by simp
  also have "\<dots> \<le> ENTROPY_BUDGET st" by (rule process_decide_budget)
  finally show ?case .
qed

text \<open>
  Claim C2. Along any sequence of decide requests handled by one process, the entropy
  budget never increases (the budget after a longer run is at most the budget after any
  of its prefixes), and once the process is LOCKED (budget \<open>\<le> 0\<close>) it is LOCKED after every
  further request: there is no way back to ACTIVE.
\<close>

theorem C2_entropy_budget_monotone:
  "ENTROPY_BUDGET (run_daemon np_shuffle rnd_shuffle st (ps @ qs))
      \<le> ENTROPY_BUDGET (run_daemon np_shuffle rnd_shuffle st ps)
   \<and> (ENTROPY_BUDGET (run_daemon np_shuffle rnd_shuffle st ps) \<le> 0
        \<longrightarrow> ENTROPY_BUDGET (run_daemon np_shuffle rnd_shuffle st (ps @ qs)) \<le> 0)"
  using run_daemon_budget [of np_shuffle rnd_shuffle "run_daemon np_shuffle rnd_shuffle st ps" qs]
  by (simp add: run_daemon_append)

text \<open>
  Claim C10. \<^verbatim>\<open>handle_decide\<close> never uses the caller's \<^verbatim>\<open>seed_model_hash\<close>: in the same
  budget state, ACTIVE or LOCKED, two requests with the same params and features and any
  two caller seeds have the same outcome, that is the same SR, C, actions and rotation
  plan (and the same remaining fields, the same successor state, or the same error).
\<close>

theorem C10_decide_ignores_caller_seed:
  "handle_decide np_shuffle rnd_shuffle st
      \<lparr>payload_params = params, payload_features = features, payload_seed_model_hash = seed1\<rparr>
   = handle_decide np_shuffle rnd_shuffle st
      \<lparr>payload_params = params, payload_features = features, payload_seed_model_hash = seed2\<rparr>"
  by (simp add: handle_decide_def)

lemma decide_metrics_empty: "decide_metrics Map.empty = (0, 0)"
  by (simp add: decide_metrics_def SuperRelationCalculator_calculate_def sanitize_def)

lemma is_shuffle_rev: "is_shuffle (\<lambda>s xs. rev xs)"
  by (simp add: is_shuffle_def)

lemma is_shuffle_parity: "is_shuffle (\<lambda>s xs. if even s then xs else rev xs)"
  by (simp add: is_shuffle_def)

lemma process_decide_active:
  assumes "0 < ENTROPY_BUDGET st"
    and "decide_metrics (payload_params payload) = (sr, c)"
    and "generate_actions PolicyCalculator_init np_shuffle (int (length (payload_features payload))) sr c None = Inr actions"
  shows "ENTROPY_BUDGET (snd (process_decide np_shuffle rnd_shuffle st payload))
           = ENTROPY_BUDGET st
             - (0.5 + 0.01 * real_of_int (rotation_count
                  (plan_rotations rnd_shuffle (int (length (payload_features payload))) sr c None)))"
proof -
  obtain r where "handle_decide np_shuffle rnd_shuffle st payload
                = Inr (r, st\<lparr>ENTROPY_BUDGET := ENTROPY_BUDGET st - (0.5 + 0.01 * real_of_int (rotation_count (dr_rotation_plan r)))\<rparr>)"
    and "dr_rotation_plan r
               = plan_rotations rnd_shuffle (int (length (payload_features payload))) sr c None"
    using handle_decide_active [OF assms] by blast
  then show ?thesis by (simp add: process_decide_def)
qed

lemma process_decide_active_state:
  assumes "0 < ENTROPY_BUDGET st"
    and "decide_metrics (payload_params payload) = (sr, c)"
    and "generate_actions PolicyCalculator_init np_shuffle (int (length (payload_features payload))) sr c None = Inr actions"
  shows "snd (process_decide np_shuffle rnd_shuffle st payload)
           = \<lparr>ENTROPY_BUDGET = ENTROPY_BUDGET st
             - (0.5 + 0.01 * real_of_int (rotation_count
                  (plan_rotations rnd_shuffle (int (length (payload_features payload))) sr c None)))\<rparr>"
  using process_decide_active [OF assms, of rnd_shuffle]
  by (cases "snd (process_decide np_shuffle rnd_shuffle st payload)") simp

lemma run_daemon_replicate_active:
  assumes m: "decide_metrics (payload_params payload) = (sr, c)"
    and ga: "generate_actions PolicyCalculator_init np_shuffle (int (length (payload_features payload))) sr c None = Inr actions"
    and d: "d = 0.5 + 0.01 * real_of_int (rotation_count
                  (plan_rotations rnd_shuffle (int (length (payload_features payload))) sr c None))"
    and pos: "real k * d < ENTROPY_BUDGET st + d"
  shows "run_daemon np_shuffle rnd_shuffle st (replicate k payload)
           = \<lparr>ENTROPY_BUDGET = ENTROPY_BUDGET st - real k * d\<rparr>"
  using pos
proof (induction k arbitrary: st)
  case 0
  show ?case by simp
next
  case (Suc k)
  have dpos: "0 < d"
    using rotation_count_pos [of rnd_shuffle "int (length (payload_features payload))" sr c None]
    by (simp add: d)
  have "real (Suc k) * d = real k * d + d" by (simp add: algebra_simps)
  then have kd: "real k * d < ENTROPY_BUDGET st" using Suc.prems by linarith
  have "0 \<le> real k * d" using dpos by simp
  then have act: "0 < ENTROPY_BUDGET st" using kd by linarith
  let ?st' = "snd (process_decide np_shuffle rnd_shuffle st payload)"
  have st': "?st' = \<lparr>ENTROPY_BUDGET = ENTROPY_BUDGET st - d\<rparr>"
    using process_decide_active_state [OF act m ga, of rnd_shuffle] by (simp add: d)
  have "real k * d < ENTROPY_BUDGET ?st' + d" using kd by (simp add: st')
  then have "run_daemon np_shuffle rnd_shuffle ?st' (replicate k payload)
               = \<lparr>ENTROPY_BUDGET = ENTROPY_BUDGET ?st' - real k * d\<rparr>"
    by (rule Suc.IH)
  then show ?case by (simp add: st' algebra_simps)
qed

lemma eval_actions_one_leaf_parity:
  "generate_actions PolicyCalculator_init (\<lambda>s xs. if even s then xs else rev xs) 1 0 0 None
     = Inr [''VALID'']"
  by code_simp

lemma eval_count_one_leaf_parity:
  "rotation_count (plan_rotations (\<lambda>s xs. if even s then xs else rev xs) 1 0 0 None) = 1"
  by code_simp

text \<open>
  The state reached from the initial budget \<open>100.0\<close> by \<open>196\<close> decisions on one leaf, each
  of which costs \<open>0.51\<close>.
\<close>

lemma reach_low_budget:
  "run_daemon (\<lambda>s xs. if even s then xs else rev xs) (\<lambda>s xs. if even s then xs else rev xs)
     initial_state
     (replicate 196 \<lparr>payload_params = Map.empty, payload_features = [()],
                     payload_seed_model_hash = None :: int option\<rparr>)
   = \<lparr>ENTROPY_BUDGET = 0.04\<rparr>"
proof -
  let ?p = "\<lparr>payload_params = Map.empty, payload_features = [()],
                     payload_seed_model_hash = None :: int option\<rparr>"
  have "run_daemon (\<lambda>s xs. if even s then xs else rev xs) (\<lambda>s xs. if even s then xs else rev xs)
     initial_state (replicate 196 ?p)
     = \<lparr>ENTROPY_BUDGET = ENTROPY_BUDGET initial_state - real 196 * 0.51\<rparr>"
    by (rule run_daemon_replicate_active [where sr = 0 and c = 0 and actions = "[''VALID'']"])
       (simp_all add: decide_metrics_empty eval_actions_one_leaf_parity eval_count_one_leaf_parity
          initial_state_def)
  then show ?thesis by (simp add: initial_state_def)
qed

text \<open>
  The LOCKED hypothesis of C2 is met: the \<open>197\<close>th decision of such a process brings the
  budget from \<open>0.04\<close> below \<open>0\<close>, and the process is still locked after the next request.
\<close>

theorem C2_entropy_budget_monotone_witness:
  "ENTROPY_BUDGET (run_daemon (\<lambda>s xs. if even s then xs else rev xs)
       (\<lambda>s xs. if even s then xs else rev xs) initial_state
       (replicate 197 \<lparr>payload_params = Map.empty, payload_features = [()],
                       payload_seed_model_hash = None :: int option\<rparr>)) \<le> 0
   \<and> ENTROPY_BUDGET (run_daemon (\<lambda>s xs. if even s then xs else rev xs)
       (\<lambda>s xs. if even s then xs else rev xs) initial_state
       (replicate 197 \<lparr>payload_params = Map.empty, payload_features = [()],
                       payload_seed_model_hash = None :: int option\<rparr>
        @ [\<lparr>payload_params = Map.empty, payload_features = [()],
            payload_seed_model_hash = Some 7\<rparr>])) \<le> 0"
proof -
  let ?f = "\<lambda>(s::int) (xs::nat list). if even s then xs else rev xs"
  let ?p = "\<lparr>payload_params = Map.empty, payload_features = [()],
             payload_seed_model_hash = None :: int option\<rparr>"
  have r: "replicate 197 ?p = replicate 196 ?p @ [?p]"
    using replicate_add [of 196 1 ?p] by simp
  have "ENTROPY_BUDGET (snd (process_decide ?f ?f \<lparr>ENTROPY_BUDGET = 0.04\<rparr> ?p))
          = 0.04 - (0.5 + 0.01 * real_of_int 1)"
    using process_decide_active [of "\<lparr>ENTROPY_BUDGET = 0.04\<rparr>" ?p 0 0 ?f "[''VALID'']" ?f]
    by (simp add: decide_metrics_empty eval_actions_one_leaf_parity eval_count_one_leaf_parity)
  then have "ENTROPY_BUDGET (run_daemon ?f ?f initial_state (replicate 197 ?p)) \<le> 0"
    unfolding r run_daemon_append reach_low_budget by simp
  then show ?thesis
    using C2_entropy_budget_monotone [of ?f ?f initial_state "replicate 197 ?p"
        "[\<lparr>payload_params = Map.empty, payload_features = [()], payload_seed_model_hash = Some 7\<rparr>]"]
    by blast
qed

text \<open>
  Claim C1. In a state whose entropy budget is \<open>\<le> 0\<close>, two decide calls with the same
  params and features and different caller seeds both succeed, leave the state as it is
  (so the second call runs in the state of the first), and return the same actions and
  the same rotation plan: those that the policy and the planner produce under the forced
  seed \<open>42\<close>. The numpy shuffle is assumed to permute its argument.
\<close>

theorem C1_locked_determinism:
  assumes "ENTROPY_BUDGET st \<le> 0" and "is_shuffle np_shuffle"
  shows "\<exists>r1 r2.
      handle_decide np_shuffle rnd_shuffle st
        \<lparr>payload_params = params, payload_features = features, payload_seed_model_hash = seed1\<rparr>
         = Inr (r1, st)
    \<and> handle_decide np_shuffle rnd_shuffle st
        \<lparr>payload_params = params, payload_features = features, payload_seed_model_hash = seed2\<rparr>
         = Inr (r2, st)
    \<and> dr_actions r1 = dr_actions r2
    \<and> dr_rotation_plan r1 = dr_rotation_plan r2
    \<and> generate_actions PolicyCalculator_init np_shuffle (int (length features))
          (dr_sr r1) (dr_c r1) (Some 42) = Inr (dr_actions r1)
    \<and> dr_rotation_plan r1
        = plan_rotations rnd_shuffle (int (length features)) (dr_sr r1) (dr_c r1) (Some 42)"
proof -
  obtain sr c where m: "decide_metrics params = (sr, c)" by (cases "decide_metrics params")
  obtain actions where
    ga: "generate_actions PolicyCalculator_init np_shuffle (int (length features)) sr c (Some 42)
           = Inr actions"
    using generate_actions_ok [OF assms(2), of "int (length features)" sr c "Some 42"] by auto
  let ?p1 = "\<lparr>payload_params = params, payload_features = features, payload_seed_model_hash = seed1\<rparr>"
  let ?p2 = "\<lparr>payload_params = params, payload_features = features, payload_seed_model_hash = seed2\<rparr>"
  obtain r1 where r1: "handle_decide np_shuffle rnd_shuffle st ?p1 = Inr (r1, st)"
    "dr_sr r1 = sr" "dr_c r1 = c" "dr_actions r1 = actions"
    "dr_rotation_plan r1 = plan_rotations rnd_shuffle (int (length features)) sr c (Some 42)"
    using handle_decide_locked [of st ?p1 sr c np_shuffle actions rnd_shuffle] assms(1) m ga
    by auto
  obtain r2 where r2: "handle_decide np_shuffle rnd_shuffle st ?p2 = Inr (r2, st)"
    "dr_actions r2 = actions"
    "dr_rotation_plan r2 = plan_rotations rnd_shuffle (int (length features)) sr c (Some 42)"
    using handle_decide_locked [of st ?p2 sr c np_shuffle actions rnd_shuffle] assms(1) m ga
    by auto
  show ?thesis
    using r1 r2 ga by (intro exI [of _ r1] exI [of _ r2]) simp
qed

text \<open>
  The hypotheses of C1 hold for a budget of \<open>0\<close>, \<open>128\<close> leaves, caller seeds \<open>1\<close> and \<open>2\<close>
  and a shuffle whose result depends on the seed.
\<close>

theorem C1_locked_determinism_witness:
  "ENTROPY_BUDGET \<lparr>ENTROPY_BUDGET = 0\<rparr> \<le> 0
   \<and> is_shuffle (\<lambda>s xs. if even s then xs else rev xs)
   \<and> (\<exists>r1 r2.
      handle_decide (\<lambda>s xs. if even s then xs else rev xs) (\<lambda>s xs. if even s then xs else rev xs)
        \<lparr>ENTROPY_BUDGET = 0\<rparr>
        \<lparr>payload_params = [''b'' \<mapsto> 4, ''m'' \<mapsto> 3, ''t'' \<mapsto> 128],
         payload_features = replicate 128 (),
         payload_seed_model_hash = Some (1::int)\<rparr>
         = Inr (r1, \<lparr>ENTROPY_BUDGET = 0\<rparr>)
    \<and> handle_decide (\<lambda>s xs. if even s then xs else rev xs) (\<lambda>s xs. if even s then xs else rev xs)
        \<lparr>ENTROPY_BUDGET = 0\<rparr>
        \<lparr>payload_params = [''b'' \<mapsto> 4, ''m'' \<mapsto> 3, ''t'' \<mapsto> 128],
         payload_features = replicate 128 (),
         payload_seed_model_hash = Some 2\<rparr>
         = Inr (r2, \<lparr>ENTROPY_BUDGET = 0\<rparr>)
    \<and> dr_actions r1 = dr_actions r2
    \<and> dr_rotation_plan r1 = dr_rotation_plan r2)"
proof -
  have h1: "ENTROPY_BUDGET \<lparr>ENTROPY_BUDGET = 0\<rparr> \<le> 0" by simp
  have h2: "is_shuffle (\<lambda>s xs. if even s then xs else rev xs)" by (rule is_shuffle_parity)
  show ?thesis
    using h1 h2
      C1_locked_determinism [OF h1 h2,
        where rnd_shuffle = "\<lambda>s xs. if even s then xs else rev xs"
          and params = "[''b'' \<mapsto> 4, ''m'' \<mapsto> 3, ''t'' \<mapsto> 128]"
          and features = "replicate 128 ()" and ?seed1.0 = "Some (1::int)" and ?seed2.0 = "Some 2"]
    by blast
qed

lemma sr_range:
  "SuperRelationCalculator_calculate self params = Inr sr \<Longrightarrow> 0 \<le> sr \<and> sr \<le> 1"
  by (auto simp: SuperRelationCalculator_calculate_def Let_def split: option.splits if_splits sum.splits)

lemma c_range:
  "CorrelationCalculator_calculate self params d = Inr c \<Longrightarrow> 0 \<le> c \<and> c \<le> 1"
  by (auto simp: CorrelationCalculator_calculate_def Let_def split: option.splits if_splits sum.splits)

lemma decide_metrics_range:
  assumes "decide_metrics params = (sr, c)"
  shows "0 \<le> sr \<and> sr \<le> 1 \<and> 0 \<le> c \<and> c \<le> 1"
  using assms sr_range c_range
  by (fastforce simp: decide_metrics_def sanitize_def Let_def split: sum.splits)

lemma decoy_rate_low_zone:
  assumes "c \<le> 1"
  shows "calculate_decoy_rate PolicyCalculator_init sr c \<le> 0.1"
  using assms
  by (auto simp: calculate_decoy_rate_def PolicyCalculator_init_def clamp_def Let_def max_def min_def)

lemma generate_actions_three_leaves:
  assumes "0 \<le> sr" "sr \<le> 1" "0 \<le> c" "c \<le> 1"
  shows "generate_actions PolicyCalculator_init np_shuffle 3 sr c None
           = Inr [''VALID'', ''VALID'', ''VALID'']"
proof -
  define r where "r = calculate_decoy_rate PolicyCalculator_init sr c"
  have r: "0 \<le> r" "r \<le> 1 / 10"
    using decoy_rate_default_bounds [of sr c] decoy_rate_low_zone [OF assms(4), of sr]
    by (simp_all add: r_def)
  have "\<lfloor>3 * r\<rfloor> = 0" using r by (simp add: floor_eq_iff)
  then have d: "\<lfloor>3 * calculate_decoy_rate PolicyCalculator_init sr c\<rfloor> = 0"
    by (simp add: r_def)
  show ?thesis
    by (simp add: generate_actions_unfold policy_multiset_def d numeral_3_eq_3)
qed

lemma plan_indices_three_leaves:
  "plan_indices (plan_rotations rnd_shuffle 3 sr c seed)
     = sort (take 1 (rnd_shuffle (case seed of Some s \<Rightarrow> s | None \<Rightarrow> 0) [0, 1, 2]))"
proof -
  define pct :: real where "pct = 0.03 + (0.20 - 0.03) * min 1.0 (max 0.0 ((1.0 - sr) * 0.6 + c * 0.4))"
  have b: "0.03 \<le> pct" "pct \<le> 0.20" unfolding pct_def by (rule rotation_pct_bounds)+
  have "\<lceil>3 * pct\<rceil> = 1" using b by (simp add: ceiling_eq_iff)
  then have c: "\<lceil>real_of_int 3 * pct\<rceil> = 1" by simp
  have u: "[0..<3] = [0, 1, 2]" by (simp add: upt_rec)
  show ?thesis
    unfolding plan_rotations_def Let_def pct_def [symmetric] c
    by (simp add: py_range_def u)
qed

text \<open>
  Claim C3, on the source. The claim is that a decide operation in the ACTIVE state draws
  with the caller-supplied seed when one is present. The first decision of a process
  (budget \<open>100.0\<close>, ACTIVE), made on three leaves with \<open>b = 4\<close>, \<open>m = 3\<close>, \<open>t = 128\<close> and the
  caller seed \<open>1\<close>, returns the actions as built, unshuffled, and the rotation indices
  \<open>[0]\<close>: those of the planner's default seed \<open>0\<close>, while a draw under the caller's seed \<open>1\<close>
  selects \<open>[2]\<close>. \<^verbatim>\<open>handle_decide\<close> reads \<^verbatim>\<open>seed_model_hash\<close> into a local and passes
  \<^verbatim>\<open>seed=None\<close> to the policy and to the planner. (The shuffle of the example returns its
  argument under an even seed and reverses it under an odd one.)
\<close>

theorem C3_active_decide_drops_caller_seed:
  "(case handle_decide (\<lambda>s xs. if even s then xs else rev xs) (\<lambda>s xs. if even s then xs else rev xs)
           initial_state
           \<lparr>payload_params = [''b'' \<mapsto> 4, ''m'' \<mapsto> 3, ''t'' \<mapsto> 128],
            payload_features = [(), (), ()],
            payload_seed_model_hash = Some (1::int)\<rparr> of
      Inl e \<Rightarrow> False
    | Inr (r, st') \<Rightarrow>
        dr_actions r = [''VALID'', ''VALID'', ''VALID'']
        \<and> plan_indices (dr_rotation_plan r) = [0]
        \<and> plan_indices (plan_rotations (\<lambda>s xs. if even s then xs else rev xs) 3
                           (dr_sr r) (dr_c r) (Some 0)) = [0]
        \<and> plan_indices (plan_rotations (\<lambda>s xs. if even s then xs else rev xs) 3
                           (dr_sr r) (dr_c r) (Some 1)) = [2])"
proof -
  let ?f = "\<lambda>(s::int) (xs::nat list). if even s then xs else rev xs"
  let ?p = "\<lparr>payload_params = [''b'' \<mapsto> 4, ''m'' \<mapsto> 3, ''t'' \<mapsto> 128],
            payload_features = [(), (), ()],
            payload_seed_model_hash = Some (1::int)\<rparr>"
  obtain sr c where m: "decide_metrics (payload_params ?p) = (sr, c)"
    by (cases "decide_metrics (payload_params ?p)")
  have rg: "0 \<le> sr" "sr \<le> 1" "0 \<le> c" "c \<le> 1"
    using decide_metrics_range [OF m] by simp_all
  have ga: "generate_actions PolicyCalculator_init ?f (int (length (payload_features ?p))) sr c None
              = Inr [''VALID'', ''VALID'', ''VALID'']"
    using generate_actions_three_leaves [OF rg, of ?f] by simp
  have act: "0 < ENTROPY_BUDGET initial_state" by (simp add: initial_state_def)
  obtain r st' where h: "handle_decide ?f ?f initial_state ?p = Inr (r, st')"
    and a: "dr_actions r = [''VALID'', ''VALID'', ''VALID'']"
    and p: "dr_rotation_plan r = plan_rotations ?f (int (length (payload_features ?p))) sr c None"
    using handle_decide_active [OF act m ga, of ?f] by blast
  have p': "plan_indices (dr_rotation_plan r) = [0]"
    unfolding p by (simp add: plan_indices_three_leaves)
  show ?thesis
    unfolding h by (simp add: a p' plan_indices_three_leaves)
qed

section \<open>Properties of the metric calculators\<close>

lemma float_overflow_lower: "2 ^ 1023 \<le> float_overflow"
proof -
  have "(2::real) ^ 970 \<le> 2 ^ 1023" by (rule power_increasing) simp_all
  moreover have "(2::real) ^ 1024 = 2 * 2 ^ 1023" by simp
  ultimately show ?thesis unfolding float_overflow_def by linarith
qed

lemma float_overflow_upper: "float_overflow < 2 ^ 1024"
  by (simp add: float_overflow_def)

lemma py_isfinite_small: "\<bar>x\<bar> \<le> 2 ^ 1000 \<Longrightarrow> py_isfinite x"
proof -
  assume a: "\<bar>x\<bar> \<le> 2 ^ 1000"
  have "(2::real) ^ 1000 < 2 ^ 1023" by (rule power_strict_increasing) simp_all
  then show ?thesis using a float_overflow_lower unfolding py_isfinite_def by linarith
qed

lemma py_isfinite_unit: "\<bar>x\<bar> \<le> 1 \<Longrightarrow> py_isfinite x"
proof -
  assume a: "\<bar>x\<bar> \<le> 1"
  have "(1::real) \<le> 2 ^ 1000" by (rule one_le_power) simp
  then have "\<bar>x\<bar> \<le> 2 ^ 1000" using a by linarith
  then show ?thesis by (rule py_isfinite_small)
qed

lemma math_exp_nonpos: "x \<le> 0 \<Longrightarrow> math_exp x = Inr (exp x)"
proof -
  assume "x \<le> 0"
  then have "\<bar>exp x\<bar> \<le> 1" by simp
  then have "py_isfinite (exp x)" by (rule py_isfinite_unit)
  then show ?thesis by (simp add: math_exp_def)
qed





text \<open>
  The power \<^verbatim>\<open>self.P ** (2 * d + 1)\<close> of \<^verbatim>\<open>CorrelationCalculator.calculate\<close> precedes the
  guard and the \<^verbatim>\<open>try\<close> in the same way: with a negative depth it raises, here at
  \<open>b = -4\<close>, \<open>m = -200\<close>, \<open>t = 128\<close>.
\<close>

lemma correlation_power_raises_overflow_error: "CorrelationCalculator_calculate CorrelationCalculator_init
     [''b'' \<mapsto> - 4, ''m'' \<mapsto> - 200, ''t'' \<mapsto> 128] None = Inl OverflowError"
proof -
  have "(2::real) ^ 7 \<le> 2 ^ 1000" by (rule power_increasing) simp_all
  then have f1: "py_float 128 = Inr 128" by (simp add: py_float_def py_isfinite_small)
  have "(2::real) ^ 2 \<le> 2 ^ 1000" by (rule power_increasing) simp_all
  then have f2: "py_float (- 4) = Inr (- 4)" by (simp add: py_float_def py_isfinite_small)
  have "(2::real) ^ 10 \<le> 2 ^ 1000" by (rule power_increasing) simp_all
  then have f3: "py_float (- 4 * - 200) = Inr 800" by (simp add: py_float_def py_isfinite_small)
  have "(10::real) ^ 399 = (1 / 10) powi (2 * (- 200) + 1)"
    by (simp add: power_int_minus field_simps)
  moreover have "(2::real) ^ 1024 \<le> 10 ^ 399"
  proof -
    have "(2::real) ^ 1024 \<le> 2 ^ 1197" by (rule power_increasing) simp_all
    also have "\<dots> = (2 ^ 3) ^ 399" by (simp only: power_mult [symmetric]) simp
    also have "\<dots> \<le> 10 ^ 399" by (rule power_mono) simp_all
    finally show ?thesis .
  qed
  ultimately have o: "\<not> py_isfinite (c_P CorrelationCalculator_init powi (2 * (- 200) + 1))"
    using float_overflow_upper by (simp add: py_isfinite_def CorrelationCalculator_init_def)
  show ?thesis
    unfolding CorrelationCalculator_calculate_def Let_def
    using f1 f2 f3 o by simp
qed

lemma spec_normalized_image_sentinel: "spec_normalized_image 1 = 2 / 3"
proof -
  have e: "exp (- ln (2::real)) = 1 / 2"
    by (simp add: exp_minus inverse_eq_divide)
  have "spec_normalized_image 1 = max 0 (min 1 (1 / (1 + exp (- ln (2::real)))))"
    by (simp add: spec_normalized_image_def)
  also have "\<dots> = max 0 (min 1 (1 / (1 + 1 / (2::real))))"
    by (simp only: e)
  also have "\<dots> = 2 / 3" by simp
  finally show ?thesis .
qed

lemma calculate_simplified_formula_nonneg: "0 \<le> calculate_simplified_formula b m t"
  by (simp add: calculate_simplified_formula_def Let_def split: sum.splits)

lemma normalization_of_nonneg:
  assumes "0 \<le> raw"
  shows "(case math_exp (- max 0.001 1.0 * (ln (1 + \<bar>raw\<bar>) * (if raw \<ge> 0 then 1.0 else - 1.0) - 0.0)) of
            Inl _ \<Rightarrow> Inr 0.0
          | Inr ex \<Rightarrow> (let normalized = 1.0 / (1.0 + ex) in Inr (max 0.0 (min 1.0 normalized))))
         = (Inr (spec_normalized_image raw) :: py_error + real)"
proof -
  have l: "0 \<le> ln (1 + raw)" using assms by simp
  then have "- ln (1 + raw) \<le> 0" by simp
  then have me: "math_exp (- ln (1 + raw)) = Inr (exp (- ln (1 + raw)))"
    by (rule math_exp_nonpos)
  have sg: "ln (1 + raw) * sgn raw = ln (1 + raw)"
    using assms by (cases "raw = 0") (simp_all add: sgn_if)
  show ?thesis
    using assms by (simp add: me spec_normalized_image_def sg)
qed

text \<open>
  Past its guard, and when the full formula raises nothing, \<^verbatim>\<open>calculate\<close> returns the
  normalized image of the raw score (of the simplified formula's, where the fallback
  applies).
\<close>

lemma calculate_normalizes_raw_score:
  assumes "params ''b'' = Some b" "params ''m'' = Some m" "params ''t'' = Some t"
    and "0 < b" "0 < m" "0 < t"
    and "calculate_full_formula SuperRelationCalculator_init b m t = Inr raw0"
  shows "SuperRelationCalculator_calculate SuperRelationCalculator_init params
           = Inr (spec_normalized_image
                    (if \<not> py_isfinite raw0 \<or> raw0 < 0 \<or> raw0 > 10 ^ 9
                     then calculate_simplified_formula b m t else raw0))"
proof -
  define raw where "raw = (if \<not> py_isfinite raw0 \<or> raw0 < 0.0 \<or> raw0 > 10 ^ 9
                     then calculate_simplified_formula b m t else raw0)"
  have r: "0 \<le> raw"
    using calculate_simplified_formula_nonneg [of b m t] by (simp add: raw_def)
  have "SuperRelationCalculator_calculate SuperRelationCalculator_init params
          = (case math_exp (- max 0.001 1.0 * (ln (1 + \<bar>raw\<bar>) * (if raw \<ge> 0 then 1.0 else - 1.0) - 0.0)) of
            Inl _ \<Rightarrow> Inr 0.0
          | Inr ex \<Rightarrow> (let normalized = 1.0 / (1.0 + ex) in Inr (max 0.0 (min 1.0 normalized))))"
    unfolding SuperRelationCalculator_calculate_def Let_def raw_def
    using assms by (simp add: SuperRelationCalculator_init_def)
  also have "\<dots> = Inr (spec_normalized_image raw)"
    by (rule normalization_of_nonneg [OF r])
  finally show ?thesis by (simp add: raw_def)
qed

text \<open>
  Against claim C5 as stated: for \<open>b = 0\<close> (with \<open>m = 3\<close>, \<open>t = 128\<close>) the guard fails and
  \<^verbatim>\<open>calculate\<close> returns the raw sentinel \<open>1.0\<close>, while the normalized image of \<open>1.0\<close> is
  \<open>2/3\<close>.
\<close>

theorem C5_guard_returns_normalized_sentinel_fails:
  "SuperRelationCalculator_calculate SuperRelationCalculator_init
      [''b'' \<mapsto> 0, ''m'' \<mapsto> 3, ''t'' \<mapsto> 128] = Inr 1
   \<and> spec_normalized_image 1 = 2 / 3"
  by (simp add: SuperRelationCalculator_calculate_def spec_normalized_image_sentinel)

text \<open>
  Claim C5, amended. For every input with \<open>b \<le> 0\<close> or \<open>m \<le> 0\<close> or \<open>t \<le> 0\<close>,
  \<^verbatim>\<open>SuperRelationCalculator.calculate\<close> returns the raw sentinel \<open>1.0\<close> itself, not mapped
  through the normalization; and once \<open>b > 0\<close> and \<open>m > 0\<close>, \<open>L = b^m\<close> is positive, so the
  case \<open>L \<le> 0\<close> does not arise from \<^verbatim>\<open>calculate\<close>.
\<close>

theorem C5_guard_returns_raw_sentinel:
  assumes "params ''b'' = Some b" and "params ''m'' = Some m" and "params ''t'' = Some t"
  shows "(b \<le> 0 \<or> m \<le> 0 \<or> t \<le> 0
            \<longrightarrow> SuperRelationCalculator_calculate self params = Inr 1.0)
       \<and> (0 < b \<and> 0 < m \<longrightarrow> \<not> b ^ nat m \<le> 0)"
  using assms by (auto simp: SuperRelationCalculator_calculate_def not_le)

text \<open>
  Both hypotheses of C5 hold at \<open>b = 4\<close>, \<open>m = 3\<close>, \<open>t = 0\<close>: the guard fails through \<open>t\<close>, and
  \<open>b\<close>, \<open>m\<close> are positive.
\<close>

theorem C5_guard_returns_raw_sentinel_witness:
  "[''b'' \<mapsto> 4, ''m'' \<mapsto> 3, ''t'' \<mapsto> 0] ''b'' = Some (4::int)
   \<and> [''b'' \<mapsto> 4, ''m'' \<mapsto> 3, ''t'' \<mapsto> 0] ''m'' = Some (3::int)
   \<and> [''b'' \<mapsto> 4, ''m'' \<mapsto> 3, ''t'' \<mapsto> 0] ''t'' = Some (0::int)
   \<and> ((4::int) \<le> 0 \<or> (3::int) \<le> 0 \<or> (0::int) \<le> 0)
   \<and> SuperRelationCalculator_calculate SuperRelationCalculator_init
         [''b'' \<mapsto> 4, ''m'' \<mapsto> 3, ''t'' \<mapsto> 0] = Inr 1.0
   \<and> (0 < (4::int) \<and> 0 < (3::int))
   \<and> \<not> (4::int) ^ nat 3 \<le> 0"
  using C5_guard_returns_raw_sentinel [of "[''b'' \<mapsto> 4, ''m'' \<mapsto> 3, ''t'' \<mapsto> 0]" 4 3 0
      SuperRelationCalculator_init]
  by simp

section \<open>Properties of a rounding\<close>

lemma fl_mono: "is_rounding fl \<Longrightarrow> x \<le> y \<Longrightarrow> fl x \<le> fl y"
  by (simp add: is_rounding_def)

lemma fl_idem: "is_rounding fl \<Longrightarrow> fl (fl x) = fl x"
  by (simp add: is_rounding_def)

lemma fl_grid:
  "is_rounding fl \<Longrightarrow> \<bar>k\<bar> \<le> 2 ^ 53 \<Longrightarrow> j \<le> 16 \<Longrightarrow> fl (real_of_int k / 2 ^ j) = real_of_int k / 2 ^ j"
  by (simp add: is_rounding_def)

lemma fl_int: "is_rounding fl \<Longrightarrow> \<bar>k\<bar> \<le> 2 ^ 53 \<Longrightarrow> fl (real_of_int k) = real_of_int k"
  using fl_grid [of fl k 0] by simp

lemma fl_zero: "is_rounding fl \<Longrightarrow> fl 0 = 0"
  using fl_int [of fl 0] by simp

lemma fl_one: "is_rounding fl \<Longrightarrow> fl 1 = 1"
  using fl_int [of fl 1] by simp

lemma fl_nonneg: "is_rounding fl \<Longrightarrow> 0 \<le> x \<Longrightarrow> 0 \<le> fl x"
  using fl_mono [of fl 0 x] by (simp add: fl_zero)

lemma fl_le_grid:
  assumes "is_rounding fl" "x \<le> real_of_int k / 2 ^ j" "\<bar>k\<bar> \<le> 2 ^ 53" "j \<le> 16"
  shows "fl x \<le> real_of_int k / 2 ^ j"
  using fl_mono [OF assms(1,2)] fl_grid [OF assms(1,3,4)] by simp

lemma fl_ge_grid:
  assumes "is_rounding fl" "real_of_int k / 2 ^ j \<le> x" "\<bar>k\<bar> \<le> 2 ^ 53" "j \<le> 16"
  shows "real_of_int k / 2 ^ j \<le> fl x"
  using fl_mono [OF assms(1,2)] fl_grid [OF assms(1,3,4)] by simp

lemma fl_le_self:
  assumes "is_rounding fl" "x \<le> fl y"
  shows "fl x \<le> fl y"
  using fl_mono [OF assms] by (simp add: fl_idem [OF assms(1)])

lemma fl_ge_self:
  assumes "is_rounding fl" "fl y \<le> x"
  shows "fl y \<le> fl x"
  using fl_mono [OF assms] by (simp add: fl_idem [OF assms(1)])

lemma is_rounding_id: "is_rounding (\<lambda>x. x)"
  by (simp add: is_rounding_def)

lemma py_float_fl_exact:
  assumes "is_rounding fl" "\<bar>n\<bar> \<le> 2 ^ 53"
  shows "py_float_fl fl n = Inr (real_of_int n)"
proof -
  have "real_of_int \<bar>n\<bar> \<le> real_of_int (2 ^ 53)" using assms(2) by (simp only: of_int_le_iff)
  then have a: "\<bar>real_of_int n\<bar> \<le> 2 ^ 53" by simp
  have "(2::real) ^ 53 \<le> 2 ^ 1000" by (rule power_increasing) simp_all
  then have "\<bar>real_of_int n\<bar> \<le> 2 ^ 1000" using a by linarith
  then have "py_isfinite (real_of_int n)" by (rule py_isfinite_small)
  then show ?thesis by (simp add: py_float_fl_def fl_int [OF assms])
qed

section \<open>The policy engine under rounding\<close>

lemma fl_literal_bounds:
  assumes "is_rounding fl"
  shows "0 \<le> fl 0.2" "fl 0.2 \<le> 1 / 4" "0 \<le> fl 0.01" "fl 0.1 \<le> 1 / 8" "fl 0.01 \<le> fl 0.1"
    "0 \<le> fl 0.05" "fl 0.05 \<le> 1 / 16" "fl 0.2 \<le> 1"
proof -
  show "0 \<le> fl 0.2" "0 \<le> fl 0.01" "0 \<le> fl 0.05" using assms by (simp_all add: fl_nonneg)
  show a: "fl 0.2 \<le> 1 / 4" using fl_le_grid [OF assms, of "0.2" 1 2] by simp
  show "fl 0.1 \<le> 1 / 8" using fl_le_grid [OF assms, of "0.1" 1 3] by simp
  show "fl 0.01 \<le> fl 0.1" using assms by (simp add: fl_mono)
  show "fl 0.05 \<le> 1 / 16" using fl_le_grid [OF assms, of "0.05" 1 4] by simp
  show "fl 0.2 \<le> 1" using a by simp
qed

lemma decoy_rate_fl_bounds:
  assumes "is_rounding fl"
  shows "0 \<le> calculate_decoy_rate_fl fl PolicyCalculator_init sr c"
    and "calculate_decoy_rate_fl fl PolicyCalculator_init sr c \<le> 1 / 2"
  using fl_literal_bounds [OF assms]
  by (auto simp: calculate_decoy_rate_fl_def PolicyCalculator_init_def clamp_def Let_def
      max_def min_def)

lemma counts_fit_fl:
  assumes fl: "is_rounding fl" and n: "0 \<le> n" "n \<le> 2 ^ 53" and r: "0 \<le> r" "r \<le> 1 / 2"
  shows "0 \<le> fl (real_of_int n * r)" and "0 \<le> fl (real_of_int n * fl 0.05)"
    and "\<lfloor>fl (real_of_int n * r)\<rfloor> + \<lfloor>fl (real_of_int n * fl 0.05)\<rfloor> \<le> n"
proof -
  have an: "\<bar>n\<bar> \<le> 2 ^ 53" using n by simp
  have l: "0 \<le> fl 0.05" "fl 0.05 \<le> 1 / 16" using fl_literal_bounds [OF fl] by simp_all
  show p1: "0 \<le> fl (real_of_int n * r)" using n r by (intro fl_nonneg [OF fl]) simp
  show p2: "0 \<le> fl (real_of_int n * fl 0.05)" using n l by (intro fl_nonneg [OF fl]) simp
  have "real_of_int n * r \<le> real_of_int n * (1 / 2)"
    using n r by (intro mult_left_mono) simp_all
  then have "real_of_int n * r \<le> real_of_int n / 2 ^ 1" by simp
  then have a: "fl (real_of_int n * r) \<le> real_of_int n / 2 ^ 1"
    by (rule fl_le_grid [OF fl _ an]) simp
  have "real_of_int n * fl 0.05 \<le> real_of_int n * (1 / 16)"
    using n l by (intro mult_left_mono) simp_all
  then have "real_of_int n * fl 0.05 \<le> real_of_int n / 2 ^ 4" by simp
  then have b: "fl (real_of_int n * fl 0.05) \<le> real_of_int n / 2 ^ 4"
    by (rule fl_le_grid [OF fl _ an]) simp
  define x where "x = \<lfloor>fl (real_of_int n * r)\<rfloor>"
  define y where "y = \<lfloor>fl (real_of_int n * fl 0.05)\<rfloor>"
  have "real_of_int x \<le> fl (real_of_int n * r)" unfolding x_def by (rule of_int_floor_le)
  then have xa: "real_of_int x \<le> real_of_int n / 2" using a by simp
  have "real_of_int y \<le> fl (real_of_int n * fl 0.05)" unfolding y_def by (rule of_int_floor_le)
  then have yb: "real_of_int y \<le> real_of_int n / 16" using b by simp
  have "real_of_int (x + y) \<le> real_of_int n" using xa yb n(1) by simp
  then have "x + y \<le> n" by linarith
  then show "\<lfloor>fl (real_of_int n * r)\<rfloor> + \<lfloor>fl (real_of_int n * fl 0.05)\<rfloor> \<le> n"
    by (simp add: x_def y_def)
qed

lemma length_policy_multiset_fl:
  assumes "is_rounding fl" "0 \<le> n" "n \<le> 2 ^ 53"
  shows "length (policy_multiset_fl fl n sr c) = nat n"
proof -
  define r where "r = calculate_decoy_rate_fl fl PolicyCalculator_init sr c"
  have r: "0 \<le> r" "r \<le> 1 / 2"
    using decoy_rate_fl_bounds [OF assms(1), of sr c] by (simp_all add: r_def)
  note f = counts_fit_fl [OF assms r]
  have x: "0 \<le> \<lfloor>fl (real_of_int n * r)\<rfloor>" using f(1) by simp
  have y: "0 \<le> \<lfloor>fl (real_of_int n * fl 0.05)\<rfloor>" using f(2) by simp
  show ?thesis
    unfolding policy_multiset_fl_def r_def [symmetric]
    using f(3) x y assms(2) by (cases "sr \<ge> 1") (simp_all, linarith+)
qed

lemma generate_actions_fl_unfold:
  assumes "is_rounding fl" "0 \<le> n" "n \<le> 2 ^ 53"
    and "case seed of None \<Rightarrow> True | Some s \<Rightarrow> 0 \<le> s \<and> s < 2 ^ 32"
  shows "generate_actions_fl fl PolicyCalculator_init np_shuffle n sr c seed =
           (case seed of None \<Rightarrow> Inr (policy_multiset_fl fl n sr c)
            | Some s \<Rightarrow> gather (policy_multiset_fl fl n sr c) (np_shuffle s [0..<nat n]))"
proof -
  define r where "r = calculate_decoy_rate_fl fl PolicyCalculator_init sr c"
  have r: "0 \<le> r" "r \<le> 1 / 2"
    using decoy_rate_fl_bounds [OF assms(1), of sr c] by (simp_all add: r_def)
  note f = counts_fit_fl [OF assms(1,2,3) r]
  have an: "\<bar>n\<bar> \<le> 2 ^ 53" using assms(2,3) by simp
  have pf: "py_float_fl fl n = Inr (real_of_int n)" by (rule py_float_fl_exact [OF assms(1) an])
  have 1: "py_int (fl (real_of_int n * r)) = \<lfloor>fl (real_of_int n * r)\<rfloor>"
    using f(1) by (rule py_int_nonneg)
  have 2: "py_int (fl (real_of_int n * fl 0.05)) = \<lfloor>fl (real_of_int n * fl 0.05)\<rfloor>"
    using f(2) by (rule py_int_nonneg)
  have s: "\<not> (case seed of None \<Rightarrow> False | Some s \<Rightarrow> s < 0 \<or> 2 ^ 32 \<le> s)"
    using assms(4) by (auto split: option.splits)
  show ?thesis
    unfolding generate_actions_fl_def policy_multiset_fl_def r_def [symmetric] Let_def pf
      sum.case 1 2
    using s
    by (simp add: PolicyCalculator_init_def py_repeat_def py_range_def split: option.splits)
qed

lemma generate_actions_fl_ok:
  assumes "is_rounding fl" "is_shuffle np_shuffle" "0 \<le> n" "n \<le> 2 ^ 53"
    and "case seed of None \<Rightarrow> True | Some s \<Rightarrow> 0 \<le> s \<and> s < 2 ^ 32"
  shows "\<exists>acts. generate_actions_fl fl PolicyCalculator_init np_shuffle n sr c seed = Inr acts
               \<and> mset acts = mset (policy_multiset_fl fl n sr c)"
proof (cases seed)
  case None
  then show ?thesis using generate_actions_fl_unfold [OF assms(1,3,4,5)] by simp
next
  case (Some s)
  let ?base = "policy_multiset_fl fl n sr c"
  let ?idx = "np_shuffle s [0..<nat n]"
  have len: "length ?base = nat n" by (rule length_policy_multiset_fl [OF assms(1,3,4)])
  have m: "mset ?idx = mset [0..<length ?base]"
    using assms(2) by (simp add: is_shuffle_def len)
  then have "set ?idx = set [0..<length ?base]" by (rule mset_eq_setD)
  then have "gather ?base ?idx = Inr (map (\<lambda>i. ?base ! i) ?idx)"
    by (intro gather_perm) simp
  moreover have "mset (map (\<lambda>i. ?base ! i) ?idx) = mset ?base"
    by (rule mset_map_nth_perm [OF m])
  ultimately show ?thesis
    using generate_actions_fl_unfold [OF assms(1,3,4,5), of np_shuffle sr c] Some by simp
qed

lemma policy_multiset_fl_counts:
  assumes "is_rounding fl" "0 \<le> n" "n \<le> 2 ^ 53"
  shows "int (count_list (policy_multiset_fl fl n sr c) ''DECOY'')
           = \<lfloor>fl (real_of_int n * calculate_decoy_rate_fl fl PolicyCalculator_init sr c)\<rfloor>"
    and "int (count_list (policy_multiset_fl fl n sr c) ''MUTATE'')
           = (if sr \<ge> 1 then \<lfloor>fl (real_of_int n * fl 0.05)\<rfloor> else 0)"
    and "int (count_list (policy_multiset_fl fl n sr c) ''REASSIGN'')
           = (if sr < 1 then \<lfloor>fl (real_of_int n * fl 0.05)\<rfloor> else 0)"
    and "int (count_list (policy_multiset_fl fl n sr c) ''VALID'')
           = n - \<lfloor>fl (real_of_int n * calculate_decoy_rate_fl fl PolicyCalculator_init sr c)\<rfloor>
               - \<lfloor>fl (real_of_int n * fl 0.05)\<rfloor>"
proof -
  define r where "r = calculate_decoy_rate_fl fl PolicyCalculator_init sr c"
  have r: "0 \<le> r" "r \<le> 1 / 2"
    using decoy_rate_fl_bounds [OF assms(1), of sr c] by (simp_all add: r_def)
  note f = counts_fit_fl [OF assms r]
  have x: "0 \<le> \<lfloor>fl (real_of_int n * r)\<rfloor>" using f(1) by simp
  have y: "0 \<le> \<lfloor>fl (real_of_int n * fl 0.05)\<rfloor>" using f(2) by simp
  show "int (count_list (policy_multiset_fl fl n sr c) ''DECOY'')
           = \<lfloor>fl (real_of_int n * calculate_decoy_rate_fl fl PolicyCalculator_init sr c)\<rfloor>"
    unfolding policy_multiset_fl_def r_def [symmetric]
    using x by (simp add: count_list_replicate_eq)
  show "int (count_list (policy_multiset_fl fl n sr c) ''MUTATE'')
           = (if sr \<ge> 1 then \<lfloor>fl (real_of_int n * fl 0.05)\<rfloor> else 0)"
    unfolding policy_multiset_fl_def r_def [symmetric]
    using y by (simp add: count_list_replicate_eq)
  show "int (count_list (policy_multiset_fl fl n sr c) ''REASSIGN'')
           = (if sr < 1 then \<lfloor>fl (real_of_int n * fl 0.05)\<rfloor> else 0)"
    unfolding policy_multiset_fl_def r_def [symmetric]
    using y by (simp add: count_list_replicate_eq)
  show "int (count_list (policy_multiset_fl fl n sr c) ''VALID'')
           = n - \<lfloor>fl (real_of_int n * calculate_decoy_rate_fl fl PolicyCalculator_init sr c)\<rfloor>
               - \<lfloor>fl (real_of_int n * fl 0.05)\<rfloor>"
    unfolding policy_multiset_fl_def r_def [symmetric]
    using f(3) by (simp add: count_list_replicate_eq)
qed

lemma set_policy_multiset_fl:
  "set (policy_multiset_fl fl n sr c) \<subseteq> {''VALID'', ''DECOY'', ''MUTATE'', ''REASSIGN''}"
  by (auto simp: policy_multiset_fl_def)

text \<open>
  Against claim C7 as stated, which is made for every optional seed: with the seed \<open>-1\<close>
  (\<open>n = 10\<close>, \<open>SR = 2.5\<close>, \<open>C = 15\<close>) \<^verbatim>\<open>generate_actions\<close> returns no assignment;
  \<^verbatim>\<open>np.random.seed\<close> raises \<^verbatim>\<open>ValueError\<close> for a seed outside \<open>0 .. 2^32 - 1\<close>.
\<close>

theorem C7_seed_out_of_range_raises:
  "generate_actions_fl (\<lambda>x. x) PolicyCalculator_init (\<lambda>s xs. rev xs) 10 2.5 15 (Some (- 1))
     = Inl ValueError"
  by (simp add: generate_actions_fl_def)

text \<open>
  Claim C7, amended. For a leaf count \<open>1 \<le> n \<le> 2^53\<close> (an assignment is a list of \<open>n\<close>
  entries; up to \<open>2^53\<close> the conversion of \<open>n\<close> to a float is exact), any metrics, and a seed
  that is absent or within \<open>0 .. 2^32 - 1\<close>, \<^verbatim>\<open>generate_actions\<close> of the default policy
  returns a list of length exactly \<open>n\<close> whose elements are among VALID, DECOY, MUTATE,
  REASSIGN, with \<open>\<lfloor>n \<sqdot> rate\<rfloor>\<close> DECOY entries, \<open>\<lfloor>n \<sqdot> 0.05\<rfloor>\<close> MUTATE entries exactly when
  \<open>SR \<ge> 1.0\<close> (none otherwise), \<open>\<lfloor>n \<sqdot> 0.05\<rfloor>\<close> REASSIGN entries exactly when \<open>SR < 1.0\<close> (none
  otherwise), and VALID entries making up the total \<open>n\<close>; the products \<open>n \<sqdot> rate\<close> and
  \<open>n \<sqdot> 0.05\<close> are float products, and \<open>rate\<close> is the float the decoy-rate rule computes. The
  seeded shuffle is assumed to permute its argument.
\<close>

theorem C7_generate_actions_counts:
  assumes "is_rounding fl" and "is_shuffle np_shuffle" and "1 \<le> n" and "n \<le> 2 ^ 53"
    and "case seed of None \<Rightarrow> True | Some s \<Rightarrow> 0 \<le> s \<and> s < 2 ^ 32"
  shows "\<exists>acts. generate_actions_fl fl PolicyCalculator_init np_shuffle n sr c seed = Inr acts
           \<and> int (length acts) = n
           \<and> set acts \<subseteq> {''VALID'', ''DECOY'', ''MUTATE'', ''REASSIGN''}
           \<and> int (count_list acts ''DECOY'')
               = \<lfloor>fl (real_of_int n * calculate_decoy_rate_fl fl PolicyCalculator_init sr c)\<rfloor>
           \<and> int (count_list acts ''MUTATE'')
               = (if sr \<ge> 1.0 then \<lfloor>fl (real_of_int n * fl 0.05)\<rfloor> else 0)
           \<and> int (count_list acts ''REASSIGN'')
               = (if sr < 1.0 then \<lfloor>fl (real_of_int n * fl 0.05)\<rfloor> else 0)
           \<and> int (count_list acts ''VALID'')
               = n - int (count_list acts ''DECOY'') - int (count_list acts ''MUTATE'')
                   - int (count_list acts ''REASSIGN'')"
proof -
  have n0: "0 \<le> n" using assms(3) by simp
  obtain acts where ga: "generate_actions_fl fl PolicyCalculator_init np_shuffle n sr c seed = Inr acts"
    and ms: "mset acts = mset (policy_multiset_fl fl n sr c)"
    using generate_actions_fl_ok [OF assms(1,2) n0 assms(4,5)] by blast
  have len: "int (length acts) = n"
    using mset_eq_length [OF ms] length_policy_multiset_fl [OF assms(1) n0 assms(4), of sr c] n0
    by simp
  have st: "set acts \<subseteq> {''VALID'', ''DECOY'', ''MUTATE'', ''REASSIGN''}"
    using mset_eq_setD [OF ms] set_policy_multiset_fl [of fl n sr c] by simp
  have cnt: "count_list acts x = count_list (policy_multiset_fl fl n sr c) x" for x
    by (rule count_list_mset_cong [OF ms])
  show ?thesis
    using ga len st by (simp add: cnt policy_multiset_fl_counts [OF assms(1) n0 assms(4)])
qed

text \<open>The hypotheses of C7 hold at \<open>n = 10\<close>, \<open>SR = 2.5\<close>, \<open>C = 15\<close>, seed \<open>42\<close>.\<close>

theorem C7_generate_actions_counts_witness:
  "is_rounding (\<lambda>x. x) \<and> is_shuffle (\<lambda>s xs. rev xs) \<and> (1::int) \<le> 10 \<and> (10::int) \<le> 2 ^ 53
   \<and> (case Some (42::int) of None \<Rightarrow> True | Some s \<Rightarrow> 0 \<le> s \<and> s < 2 ^ 32)
   \<and> (\<exists>acts. generate_actions_fl (\<lambda>x. x) PolicyCalculator_init (\<lambda>s xs. rev xs) 10 2.5 15 (Some 42)
                 = Inr acts
           \<and> int (length acts) = 10
           \<and> set acts \<subseteq> {''VALID'', ''DECOY'', ''MUTATE'', ''REASSIGN''}
           \<and> int (count_list acts ''VALID'')
               = 10 - int (count_list acts ''DECOY'') - int (count_list acts ''MUTATE'')
                   - int (count_list acts ''REASSIGN''))"
proof -
  have r: "is_rounding (\<lambda>x. x)" by (rule is_rounding_id)
  have s: "is_shuffle (\<lambda>s xs. rev xs)" by (rule is_shuffle_rev)
  have n: "(1::int) \<le> 10" "(10::int) \<le> 2 ^ 53" by simp_all
  have d: "case Some (42::int) of None \<Rightarrow> True | Some s \<Rightarrow> 0 \<le> s \<and> s < 2 ^ 32" by simp
  show ?thesis
    using r s n d
      C7_generate_actions_counts [OF r s n d, where sr = "2.5" and c = 15]
    by blast
qed

section \<open>The rotation planner under rounding\<close>

lemma rotation_pct_fl_bounds:
  fixes fl :: rounding and risk :: real
  assumes fl: "is_rounding fl" and pc: "planner_constants fl"
  defines "pct \<equiv> fl (fl 0.03 + fl (fl (fl 0.20 - fl 0.03) * min 1.0 (max 0.0 risk)))"
  shows "fl 0.03 \<le> pct" and "pct \<le> fl 0.20" and "0 \<le> pct" and "pct \<le> 1 / 4"
proof -
  define r :: real where "r = min 1.0 (max 0.0 risk)"
  have r: "0 \<le> r" "r \<le> 1" by (simp_all add: r_def)
  have d: "fl (fl 0.20 - fl 0.03) = fl 0.17" using pc by (simp add: planner_constants_def)
  have s: "fl (fl 0.03 + fl 0.17) \<le> fl 0.20" using pc by (simp add: planner_constants_def)
  have d0: "0 \<le> fl 0.17" by (rule fl_nonneg [OF fl]) simp
  have p: "pct = fl (fl 0.03 + fl (fl 0.17 * r))" by (simp only: pct_def d r_def)
  have "0 \<le> fl 0.17 * r" using d0 r by simp
  then have "0 \<le> fl (fl 0.17 * r)" by (rule fl_nonneg [OF fl])
  then have "fl 0.03 \<le> fl 0.03 + fl (fl 0.17 * r)" by simp
  then show lo: "fl 0.03 \<le> pct" unfolding p by (rule fl_ge_self [OF fl])
  have "fl 0.17 * r \<le> fl 0.17 * 1" using d0 r by (intro mult_left_mono) simp_all
  then have "fl 0.17 * r \<le> fl 0.17" by simp
  then have "fl (fl 0.17 * r) \<le> fl 0.17" by (rule fl_le_self [OF fl])
  then have "fl 0.03 + fl (fl 0.17 * r) \<le> fl 0.03 + fl 0.17" by simp
  then have "fl (fl 0.03 + fl (fl 0.17 * r)) \<le> fl (fl 0.03 + fl 0.17)" by (rule fl_mono [OF fl])
  then show hi: "pct \<le> fl 0.20" unfolding p using s by linarith
  have "0 \<le> fl 0.03" by (rule fl_nonneg [OF fl]) simp
  then show "0 \<le> pct" using lo by linarith
  have "fl 0.20 \<le> 1 / 2 ^ 2" using fl_le_grid [OF fl, of "0.20" 1 2] by simp
  then show "pct \<le> 1 / 4" using hi by simp
qed

lemma ceiling_quarter_le:
  assumes fl: "is_rounding fl" and n: "1 \<le> n" "n \<le> 2 ^ 53" and p: "0 \<le> pct" "pct \<le> 1 / 4"
  shows "\<lceil>fl (real_of_int n * pct)\<rceil> \<le> n"
proof -
  have an: "\<bar>n\<bar> \<le> 2 ^ 53" using n by simp
  have "real_of_int n * pct \<le> real_of_int n * (1 / 4)"
    using n p by (intro mult_left_mono) simp_all
  then have "real_of_int n * pct \<le> real_of_int n / 2 ^ 2" by simp
  then have "fl (real_of_int n * pct) \<le> real_of_int n / 2 ^ 2"
    by (rule fl_le_grid [OF fl _ an]) simp
  then have "fl (real_of_int n * pct) \<le> real_of_int n" using n by simp
  then show ?thesis by (simp add: ceiling_le)
qed

text \<open>
  Claim C6. For every leaf count \<open>n\<close> from \<open>1\<close> (a plan is made for the leaves of a tree) to
  \<open>2^53\<close> (the planner builds the list of the \<open>n\<close> indices; up to \<open>2^53\<close> the conversion of
  \<open>n\<close> to a float is exact) and all metrics, \<^verbatim>\<open>plan_rotations\<close> returns a plan with
  \<open>risk = 0.6 \<sqdot> (1 - SR) + 0.4 \<sqdot> C\<close>, \<open>percentage = 0.03 + 0.17 \<sqdot> clamp(risk, 0, 1)\<close> within
  \<open>[0.03, 0.20]\<close>, \<open>count = max(1, \<lceil>n \<sqdot> percentage\<rceil>)\<close>, \<open>1 \<le> count \<le> n\<close>, and indices sorted
  ascending; every operation is the float operation and every bound the float literal.
\<close>

theorem C6_plan_rotations:
  assumes "is_rounding fl" and "planner_constants fl" and "1 \<le> n" and "n \<le> 2 ^ 53"
  shows "\<exists>p. plan_rotations_fl fl rnd_shuffle n sr c seed = Inr p
       \<and> plan_risk p = fl (fl (fl 0.6 * fl (1 - sr)) + fl (fl 0.4 * c))
       \<and> rotation_percentage p = fl (fl 0.03 + fl (fl 0.17 * clamp (plan_risk p) 0 1))
       \<and> fl 0.03 \<le> rotation_percentage p \<and> rotation_percentage p \<le> fl 0.20
       \<and> rotation_count p = max 1 \<lceil>fl (real_of_int n * rotation_percentage p)\<rceil>
       \<and> 1 \<le> rotation_count p
       \<and> rotation_count p \<le> n
       \<and> sorted (plan_indices p)"
proof -
  define risk where "risk = fl (fl (fl (1.0 - sr) * fl 0.6) + fl (c * fl 0.4))"
  define pct where "pct = fl (fl 0.03 + fl (fl (fl 0.20 - fl 0.03) * min 1.0 (max 0.0 risk)))"
  define cnt where "cnt = max 1 \<lceil>fl (real_of_int n * pct)\<rceil>"
  define p where "p = \<lparr>rotation_percentage = pct, rotation_count = cnt,
      plan_indices = sort (take (nat cnt)
         (rnd_shuffle (case seed of Some s \<Rightarrow> s | None \<Rightarrow> 0) (py_range n))),
      plan_risk = risk\<rparr>"
  have an: "\<bar>n\<bar> \<le> 2 ^ 53" using assms(3,4) by simp
  have pf: "py_float_fl fl n = Inr (real_of_int n)" by (rule py_float_fl_exact [OF assms(1) an])
  have run: "plan_rotations_fl fl rnd_shuffle n sr c seed = Inr p"
    unfolding plan_rotations_fl_def Let_def pf sum.case
    unfolding p_def cnt_def pct_def risk_def ..
  have b: "fl 0.03 \<le> pct" "pct \<le> fl 0.20" "0 \<le> pct" "pct \<le> 1 / 4"
    unfolding pct_def by (rule rotation_pct_fl_bounds [OF assms(1,2)])+
  have d: "fl (fl 0.20 - fl 0.03) = fl 0.17" using assms(2) by (simp add: planner_constants_def)
  have 1: "plan_risk p = fl (fl (fl 0.6 * fl (1 - sr)) + fl (fl 0.4 * c))"
    by (simp add: p_def risk_def mult.commute)
  have 2: "rotation_percentage p = fl (fl 0.03 + fl (fl 0.17 * clamp (plan_risk p) 0 1))"
    unfolding p_def pct_def d by (simp add: clamp_def min_def max_def)
  have 3: "rotation_count p = max 1 \<lceil>fl (real_of_int n * rotation_percentage p)\<rceil>"
    by (simp add: p_def cnt_def)
  have 4: "1 \<le> rotation_count p" by (simp add: p_def cnt_def)
  have "\<lceil>fl (real_of_int n * pct)\<rceil> \<le> n"
    by (rule ceiling_quarter_le [OF assms(1,3,4) b(3,4)])
  then have 5: "rotation_count p \<le> n" using assms(3) by (simp add: p_def cnt_def)
  have 6: "sorted (plan_indices p)" by (simp add: p_def)
  have 7: "fl 0.03 \<le> rotation_percentage p" "rotation_percentage p \<le> fl 0.20"
    using b(1,2) by (simp_all add: p_def)
  show ?thesis using run 1 2 3 4 5 6 7 by blast
qed

text \<open>The hypotheses of C6 hold at \<open>n = 128\<close>, \<open>SR = C = 0.5\<close>, seed \<open>7\<close>.\<close>

theorem C6_plan_rotations_witness:
  "is_rounding (\<lambda>x. x) \<and> planner_constants (\<lambda>x. x) \<and> (1::int) \<le> 128 \<and> (128::int) \<le> 2 ^ 53
   \<and> (\<exists>p. plan_rotations_fl (\<lambda>x. x) (\<lambda>s xs. rev xs) 128 0.5 0.5 (Some 7) = Inr p
       \<and> 1 \<le> rotation_count p \<and> rotation_count p \<le> 128 \<and> sorted (plan_indices p))"
proof -
  have r: "is_rounding (\<lambda>x. x)" by (rule is_rounding_id)
  have c: "planner_constants (\<lambda>x. x)" by (simp add: planner_constants_def)
  have n: "(1::int) \<le> 128" "(128::int) \<le> 2 ^ 53" by simp_all
  show ?thesis
    using r c n
      C6_plan_rotations [OF r c n, where rnd_shuffle = "\<lambda>s xs. rev xs" and sr = "0.5" and c = "0.5"
        and seed = "Some 7"]
    by blast
qed

section \<open>Properties of the reconciler\<close>

lemma fold_blend_step:
  assumes "k \<le> length pidx" and "\<forall>i<length pidx. pidx ! i < length xs"
  shows "length (fold (blend_step pidx pa) [0..<k] xs) = length xs
       \<and> (\<forall>j<length xs. fold (blend_step pidx pa) [0..<k] xs ! j
              = (if j \<in> set (take k pidx) then pa ! j else xs ! j))"
  using assms(1)
proof (induction k)
  case 0
  show ?case by simp
next
  case (Suc k)
  let ?prev = "fold (blend_step pidx pa) [0..<k] xs"
  have k: "k < length pidx" using Suc.prems by simp
  have ih: "length ?prev = length xs"
    "\<forall>j<length xs. ?prev ! j = (if j \<in> set (take k pidx) then pa ! j else xs ! j)"
    using Suc.IH k by simp_all
  have idx: "pidx ! k < length ?prev" using assms(2) k ih(1) by simp
  have step: "fold (blend_step pidx pa) [0..<Suc k] xs = ?prev[pidx ! k := pa ! (pidx ! k)]"
    using idx by (simp add: blend_step_def Let_def)
  have tk: "set (take (Suc k) pidx) = insert (pidx ! k) (set (take k pidx))"
    using k by (simp add: take_Suc_conv_app_nth)
  show ?case
    unfolding step tk using ih idx by (auto simp: nth_list_update)
qed

lemma decoy_positions_length:
  "length (filter (\<lambda>i. xs ! i = a) [0..<length xs]) = count_list xs a"
proof -
  have "filter (\<lambda>i. xs ! i = a) [0..<length xs] = filter ((=) a \<circ> (!) xs) [0..<length xs]"
    by (rule filter_cong) auto
  then have "length (filter (\<lambda>i. xs ! i = a) [0..<length xs])
               = length (filter ((=) a) (map ((!) xs) [0..<length xs]))"
    by (simp add: length_filter_map)
  also have "\<dots> = count_list xs a"
    by (simp add: count_list_eq_length_filter map_nth)
  finally show ?thesis .
qed

lemma apply_policy_constraints_keep:
  assumes "rate_deviation fl policy_calc actions sr c \<le> fl 0.2"
  shows "apply_policy_constraints fl policy_calc np_shuffle actions sr c = Inr actions"
  using assms by (simp add: apply_policy_constraints_def rate_deviation_def Let_def)

lemma apply_policy_constraints_blend:
  assumes "actions \<noteq> []" and "\<not> rate_deviation fl policy_calc actions sr c \<le> fl 0.2"
    and "generate_actions_fl fl policy_calc np_shuffle (int (length actions)) sr c (Some 42)
           = Inr policy_actions"
  shows "apply_policy_constraints fl policy_calc np_shuffle actions sr c
           = Inr (fold (blend_step (filter (\<lambda>i. policy_actions ! i = ''DECOY'') [0..<length policy_actions])
                          policy_actions)
                    (py_range (min (py_int (fl (fl (fl (real_of_int (int (length actions)))
                                             * calculate_decoy_rate_fl fl policy_calc sr c) * fl 0.2)))
                                   (int (length (filter (\<lambda>i. policy_actions ! i = ''DECOY'')
                                                    [0..<length policy_actions])))))
                    actions)"
  using assms
  by (simp add: apply_policy_constraints_def rate_deviation_def Let_def)

text \<open>
  Claim C9. Let \<open>deviation = |observed - expected| / (expected + 0.01)\<close> for a predictor
  assignment of length \<open>n\<close> (at most \<open>2^53\<close>, so that the conversion of \<open>n\<close> to a float is
  exact). If \<open>deviation \<le> 0.2\<close>, the assignment is returned unchanged. Otherwise the result
  is the assignment overwritten, with the policy's action at the same position, at exactly
  \<open>\<lfloor>n \<sqdot> expected \<sqdot> 0.2\<rfloor>\<close> distinct positions: the first that many DECOY positions, in
  ascending order, of the policy reference assignment generated with seed \<open>42\<close>; every other
  position keeps the predictor's action. Every operation is the float operation, and
  \<open>0.2\<close> the float literal. The numpy shuffle is assumed to permute its argument.
\<close>

theorem C9_reconciler:
  assumes "is_rounding fl" and "is_shuffle np_shuffle" and "int (length actions) \<le> 2 ^ 53"
  shows "if rate_deviation fl PolicyCalculator_init actions sr c \<le> fl 0.2
         then apply_policy_constraints fl PolicyCalculator_init np_shuffle actions sr c = Inr actions
         else (\<exists>policy_actions blended.
                 generate_actions_fl fl PolicyCalculator_init np_shuffle (int (length actions)) sr c
                     (Some 42)
                   = Inr policy_actions
               \<and> apply_policy_constraints fl PolicyCalculator_init np_shuffle actions sr c
                   = Inr blended
               \<and> (let positions =
                         take (nat \<lfloor>fl (fl (real (length actions)
                                               * calculate_decoy_rate_fl fl PolicyCalculator_init sr c)
                                           * fl 0.2)\<rfloor>)
                              (filter (\<lambda>i. policy_actions ! i = ''DECOY'') [0..<length policy_actions])
                   in length positions
                        = nat \<lfloor>fl (fl (real (length actions)
                                          * calculate_decoy_rate_fl fl PolicyCalculator_init sr c)
                                      * fl 0.2)\<rfloor>
                    \<and> distinct positions
                    \<and> set positions \<subseteq> {0..<length actions}
                    \<and> blended = map (\<lambda>i. if i \<in> set positions then policy_actions ! i else actions ! i)
                                     [0..<length actions]))"
proof (cases "rate_deviation fl PolicyCalculator_init actions sr c \<le> fl 0.2")
  case True
  then show ?thesis by (simp add: apply_policy_constraints_keep)
next
  case False
  note fl = assms(1)
  let ?n = "int (length actions)"
  define e where "e = calculate_decoy_rate_fl fl PolicyCalculator_init sr c"
  have e: "0 \<le> e" "e \<le> 1 / 2"
    using decoy_rate_fl_bounds [OF fl, of sr c] by (simp_all add: e_def)
  have n0: "0 \<le> ?n" by simp
  have an: "\<bar>?n\<bar> \<le> 2 ^ 53" using assms(3) by simp
  have sd: "case Some (42::int) of None \<Rightarrow> True | Some s \<Rightarrow> 0 \<le> s \<and> s < 2 ^ 32" by simp
  obtain pa where
    ga: "generate_actions_fl fl PolicyCalculator_init np_shuffle ?n sr c (Some 42) = Inr pa"
    and ms: "mset pa = mset (policy_multiset_fl fl ?n sr c)"
    using generate_actions_fl_ok [OF fl assms(2) n0 assms(3) sd] by blast
  have lpa: "length pa = length actions"
    using mset_eq_length [OF ms] length_policy_multiset_fl [OF fl n0 assms(3), of sr c] by simp
  define pidx where "pidx = filter (\<lambda>i. pa ! i = ''DECOY'') [0..<length pa]"
  define k where "k = nat \<lfloor>fl (fl (real_of_int ?n * e) * fl 0.2)\<rfloor>"
  have "int (length pidx) = int (count_list pa ''DECOY'')"
    by (simp add: pidx_def decoy_positions_length)
  also have "\<dots> = int (count_list (policy_multiset_fl fl ?n sr c) ''DECOY'')"
    by (simp add: count_list_mset_cong [OF ms])
  also have "\<dots> = \<lfloor>fl (real_of_int ?n * e)\<rfloor>"
    unfolding e_def by (rule policy_multiset_fl_counts(1) [OF fl n0 assms(3)])
  finally have lp: "int (length pidx) = \<lfloor>fl (real_of_int ?n * e)\<rfloor>" .
  have "0 \<le> real_of_int ?n * e" using e by simp
  then have ne: "0 \<le> fl (real_of_int ?n * e)" by (rule fl_nonneg [OF fl])
  have l2: "0 \<le> fl 0.2" "fl 0.2 \<le> 1" using fl_literal_bounds [OF fl] by simp_all
  have "fl (real_of_int ?n * e) * fl 0.2 \<le> fl (real_of_int ?n * e) * 1"
    using ne l2 by (intro mult_left_mono) simp_all
  then have "fl (real_of_int ?n * e) * fl 0.2 \<le> fl (real_of_int ?n * e)"
    by (simp only: mult_1_right)
  then have "fl (fl (real_of_int ?n * e) * fl 0.2) \<le> fl (real_of_int ?n * e)"
    by (rule fl_le_self [OF fl])
  then have fm: "\<lfloor>fl (fl (real_of_int ?n * e) * fl 0.2)\<rfloor> \<le> \<lfloor>fl (real_of_int ?n * e)\<rfloor>"
    by (rule floor_mono)
  have "0 \<le> fl (real_of_int ?n * e) * fl 0.2" using ne l2 by simp
  then have ne2: "0 \<le> fl (fl (real_of_int ?n * e) * fl 0.2)" by (rule fl_nonneg [OF fl])
  have f0: "0 \<le> \<lfloor>fl (fl (real_of_int ?n * e) * fl 0.2)\<rfloor>"
    using ne2 by (simp only: zero_le_floor of_int_0)
  have kle: "k \<le> length pidx" using fm lp f0 by (simp add: k_def)
  have fn: "fl (real_of_int ?n) = real_of_int ?n" by (rule fl_int [OF fl an])
  have pi: "py_int (fl (fl (fl (real_of_int ?n) * e) * fl 0.2))
              = \<lfloor>fl (fl (real_of_int ?n * e) * fl 0.2)\<rfloor>"
    unfolding fn using ne2 by (rule py_int_nonneg)
  have rng: "py_range (min (py_int (fl (fl (fl (real_of_int ?n) * e) * fl 0.2)))
                           (int (length pidx))) = [0..<k]"
    unfolding pi py_range_def k_def using fm lp by simp
  have inr: "\<forall>i<length pidx. pidx ! i < length actions"
  proof (intro allI impI)
    fix i assume "i < length pidx"
    then have "pidx ! i \<in> set pidx" by simp
    then show "pidx ! i < length actions" by (simp add: pidx_def lpa)
  qed
  define blended where "blended = fold (blend_step pidx pa) [0..<k] actions"
  have fb: "length blended = length actions"
    "\<forall>j<length actions. blended ! j = (if j \<in> set (take k pidx) then pa ! j else actions ! j)"
    using fold_blend_step [OF kle inr, of pa] by (simp_all add: blended_def)
  have ap: "apply_policy_constraints fl PolicyCalculator_init np_shuffle actions sr c = Inr blended"
  proof (cases "actions = []")
    case True
    then have "length pidx = 0" using lpa by (simp add: pidx_def)
    then have "k = 0" using kle by simp
    then show ?thesis
      using True by (simp add: apply_policy_constraints_def blended_def)
  next
    case ne: False
    show ?thesis
      unfolding apply_policy_constraints_blend [OF ne False ga]
      unfolding pidx_def [symmetric] e_def [symmetric] rng blended_def ..
  qed
  have 1: "length (take k pidx) = k" using kle by simp
  have 2: "distinct (take k pidx)" by (simp add: pidx_def)
  have 3: "set (take k pidx) \<subseteq> {0..<length actions}"
  proof
    fix x assume "x \<in> set (take k pidx)"
    then have "x \<in> set pidx" by (rule in_set_takeD)
    then show "x \<in> {0..<length actions}" by (simp add: pidx_def lpa)
  qed
  have 4: "blended = map (\<lambda>i. if i \<in> set (take k pidx) then pa ! i else actions ! i)
                        [0..<length actions]"
    using fb by (intro nth_equalityI) simp_all
  have kk: "k = nat \<lfloor>fl (fl (real (length actions) * e) * fl 0.2)\<rfloor>" by (simp add: k_def)
  have "\<exists>policy_actions blended.
          generate_actions_fl fl PolicyCalculator_init np_shuffle ?n sr c (Some 42) = Inr policy_actions
        \<and> apply_policy_constraints fl PolicyCalculator_init np_shuffle actions sr c = Inr blended
        \<and> (let positions = take k (filter (\<lambda>i. policy_actions ! i = ''DECOY'') [0..<length policy_actions])
           in length positions = k \<and> distinct positions \<and> set positions \<subseteq> {0..<length actions}
              \<and> blended = map (\<lambda>i. if i \<in> set positions then policy_actions ! i else actions ! i)
                                     [0..<length actions])"
    using ga ap 1 2 3 4 unfolding pidx_def Let_def by blast
  then show ?thesis
    using False unfolding kk e_def by (simp only: if_False)
qed

lemma eval_deviation_scenario:
  "rate_deviation (\<lambda>x. x) PolicyCalculator_init (replicate 90 ''DECOY'' @ replicate 10 ''VALID'') 5 0
     = 85 / 6"
  by code_simp

lemma eval_rate_scenario: "calculate_decoy_rate_fl (\<lambda>x. x) PolicyCalculator_init 5 0 = 0.05"
  by code_simp

text \<open>
  The hypotheses of C9 hold for the reversing shuffle. The instance is the scenario of
  the specification: \<open>n = 100\<close>, the predictor returns \<open>90\<close> DECOY, the expected rate is \<open>0.05\<close>
  (\<open>SR = 5\<close>, \<open>C = 0\<close>), the deviation is \<open>85/6 > 0.2\<close>, and exactly
  \<open>\<lfloor>100 \<sqdot> 0.05 \<sqdot> 0.2\<rfloor> = 1\<close> position is overwritten.
\<close>

theorem C9_reconciler_witness:
  "is_rounding (\<lambda>x. x) \<and> is_shuffle (\<lambda>s xs. rev xs)
   \<and> int (length (replicate 90 ''DECOY'' @ replicate 10 ''VALID'')) \<le> 2 ^ 53
   \<and> \<not> rate_deviation (\<lambda>x. x) PolicyCalculator_init (replicate 90 ''DECOY'' @ replicate 10 ''VALID'') 5 0
         \<le> 0.2
   \<and> (\<exists>policy_actions blended.
         generate_actions_fl (\<lambda>x. x) PolicyCalculator_init (\<lambda>s xs. rev xs) 100 5 0 (Some 42)
           = Inr policy_actions
       \<and> apply_policy_constraints (\<lambda>x. x) PolicyCalculator_init (\<lambda>s xs. rev xs)
            (replicate 90 ''DECOY'' @ replicate 10 ''VALID'') 5 0 = Inr blended
       \<and> length (take (nat \<lfloor>real 100 * (0.05::real) * 0.2\<rfloor>)
                    (filter (\<lambda>i. policy_actions ! i = ''DECOY'') [0..<length policy_actions])) = 1)"
proof -
  let ?acts = "replicate 90 ''DECOY'' @ replicate 10 ''VALID''"
  have r: "is_rounding (\<lambda>x. x)" by (rule is_rounding_id)
  have h: "is_shuffle (\<lambda>s xs. rev xs)" by (rule is_shuffle_rev)
  have n: "int (length ?acts) \<le> 2 ^ 53" by simp
  have d: "\<not> rate_deviation (\<lambda>x. x) PolicyCalculator_init ?acts 5 0 \<le> 0.2"
    unfolding eval_deviation_scenario by simp
  have l: "length ?acts = 100" by simp
  show ?thesis
    using r h n d C9_reconciler [OF r h n, of 5 0]
    unfolding l eval_rate_scenario Let_def
    by (simp only: if_False) (simp, blast)
qed

end
